theory Spec2Isabelle
  imports Main
begin

section \<open>Values that travel in a request\<close>

text \<open>
  A field of \<open>req.body\<close> or \<open>req.query\<close> is read by destructuring, so it is either absent
  (\<open>undefined\<close>) or present. Present fields are modelled as strings, the type the data
  model gives to usernames, passwords, category names and ids on the wire. A string is a
  list of 8-bit characters.
\<close>

datatype jsval = Undefined | Str string

text \<open>JavaScript truthiness, as used by \<open>!x\<close> and \<open>if (x)\<close>: \<open>undefined\<close> and the empty
  string are falsy, every other string is truthy.\<close>

fun truthy :: "jsval \<Rightarrow> bool" where
  "truthy Undefined = False"
| "truthy (Str s) = (s \<noteq> [])"

text \<open>\<open>a || b\<close> with a string default, as in \<open>process.env.ADMIN_USERNAME || 'admin'\<close>.\<close>

fun js_or :: "jsval \<Rightarrow> string \<Rightarrow> string" where
  "js_or Undefined b = b"
| "js_or (Str s) b = (if s = [] then b else s)"

text \<open>\<open>String(v)\<close>, the conversion \<open>parseInt\<close> applies to its argument.\<close>

fun ToString :: "jsval \<Rightarrow> string" where
  "ToString Undefined = ''undefined''"
| "ToString (Str s) = s"

section \<open>Numbers and \<open>parseInt\<close>\<close>

text \<open>
  The numbers the server handles are results of \<open>parseInt\<close> and of \<open>length + 1\<close>: an
  integer-valued double, an infinity or \<open>NaN\<close>. \<open>Num 0\<close> stands for both zeros, which
  \<open>===\<close> does not tell apart.
\<close>

datatype jsnum = NaN | Num int | PosInf | NegInf

text \<open>\<open>a === b\<close> on numbers: \<open>NaN\<close> is unequal to everything, itself included.\<close>

definition strict_eq :: "jsnum \<Rightarrow> jsnum \<Rightarrow> bool" where
  "strict_eq a b = (a \<noteq> NaN \<and> b \<noteq> NaN \<and> a = b)"

text \<open>Number of binary digits of a natural number.\<close>

fun bitlen :: "nat \<Rightarrow> nat" where
  "bitlen n = (if n = 0 then 0 else Suc (bitlen (n div 2)))"

declare bitlen.simps [simp del]

text \<open>
  The double nearest to a natural number (ties to even, 53 significant bits); \<open>None\<close>
  when the rounded value leaves the finite range. Numbers below \<open>2^53\<close> are exact. The
  language lets an implementation approximate a decimal numeral after its 20th significant
  digit; no statement below depends on the value of such a numeral.
\<close>

definition round_double :: "nat \<Rightarrow> nat option" where
  "round_double n =
     (let e = bitlen n - 53
      in if e = 0 then Some n
         else let q = n div 2 ^ e;
                  r = n mod 2 ^ e;
                  h = 2 ^ (e - 1);
                  q' = (if h < r \<or> (r = h \<and> odd q) then q + 1 else q);
                  v = q' * 2 ^ e
              in if 2 ^ 1024 \<le> v then None else Some v)"

definition to_number :: "bool \<Rightarrow> nat \<Rightarrow> jsnum" where
  "to_number neg n =
     (case round_double n of
        None \<Rightarrow> (if neg then NegInf else PosInf)
      | Some v \<Rightarrow> Num (if neg then - int v else int v))"

text \<open>White space that \<open>parseInt\<close> skips and that the regular expression \<open>\s\<close> matches,
  among 8-bit characters: tab, line feed, vertical tab, form feed, carriage return, space
  and no-break space.\<close>

definition is_ws :: "char \<Rightarrow> bool" where
  "is_ws c = (of_char c \<in> {9, 10, 11, 12, 13, 32, 160 :: nat})"

text \<open>Value of a character as a digit: \<open>0-9\<close>, then letters of either case from 10 up.\<close>

definition digit_of :: "char \<Rightarrow> nat option" where
  "digit_of c =
     (let n = (of_char c :: nat)
      in if 48 \<le> n \<and> n \<le> 57 then Some (n - 48)
         else if 97 \<le> n \<and> n \<le> 122 then Some (n - 87)
         else if 65 \<le> n \<and> n \<le> 90 then Some (n - 55)
         else None)"

definition is_digit_in :: "nat \<Rightarrow> char \<Rightarrow> bool" where
  "is_digit_in R c = (case digit_of c of None \<Rightarrow> False | Some d \<Rightarrow> d < R)"

definition digit_val :: "char \<Rightarrow> nat" where
  "digit_val c = (case digit_of c of None \<Rightarrow> 0 | Some d \<Rightarrow> d)"

definition radix_value :: "nat \<Rightarrow> string \<Rightarrow> nat" where
  "radix_value R Z = foldl (\<lambda>a c. a * R + digit_val c) 0 Z"

text \<open>
  \<open>parseInt(v)\<close> with no radix argument: convert to a string, skip leading white
  space, read a sign, switch to radix 16 after \<open>0x\<close> or \<open>0X\<close>, take the longest prefix
  of digits, and give \<open>NaN\<close> when that prefix is empty.
\<close>

definition parseInt :: "jsval \<Rightarrow> jsnum" where
  "parseInt v =
     (let S0 = dropWhile is_ws (ToString v);
          neg = (S0 \<noteq> [] \<and> hd S0 = CHR ''-'');
          S1 = (if S0 \<noteq> [] \<and> (hd S0 = CHR ''+'' \<or> hd S0 = CHR ''-'') then tl S0 else S0);
          hex = (take 2 S1 = ''0x'' \<or> take 2 S1 = ''0X'');
          R = (if hex then 16 else 10);
          S2 = (if hex then drop 2 S1 else S1);
          Z = takeWhile (is_digit_in R) S2
      in if Z = [] then NaN else to_number neg (radix_value R Z))"

text \<open>Whether a string, after leading white space and an optional sign, begins with a
  decimal digit.\<close>

definition begins_with_digit :: "string \<Rightarrow> bool" where
  "begins_with_digit str =
     (let S0 = dropWhile is_ws str;
          S1 = (if S0 \<noteq> [] \<and> (hd S0 = CHR ''+'' \<or> hd S0 = CHR ''-'') then tl S0 else S0)
      in S1 \<noteq> [] \<and> is_digit_in 10 (hd S1))"

section \<open>The in-memory database\<close>

record user =
  u_id :: nat
  u_username :: string
  u_password :: string
  u_isAdmin :: bool

record category =
  c_id :: nat
  c_name :: string
  c_createdAt :: nat

text \<open>An image record of either server variant; the two Cloudinary fields are absent from
  records made by the local-disk variant.\<close>

record image =
  i_id :: nat
  i_fileName :: string
  i_originalName :: string
  i_cloudinaryUrl :: "string option"
  i_cloudinaryPublicId :: "string option"
  i_categoryId :: jsnum
  i_uploadedBy :: "string option"
  i_uploadedAt :: nat
  i_path :: string

record state =
  users :: "user list"
  categories :: "category list"
  images :: "image list"

text \<open>\<open>let users = []; let categories = []; let images = [];\<close>\<close>

definition empty_state :: state where
  "empty_state = \<lparr>users = [], categories = [], images = []\<rparr>"

section \<open>Sessions and responses\<close>

text \<open>\<open>req.session\<close>: the three properties login sets; all absent on a fresh session.\<close>

record session =
  sess_userId :: "nat option"
  sess_username :: "string option"
  sess_isAdmin :: "bool option"

definition anonymous :: session where
  "anonymous = \<lparr>sess_userId = None, sess_username = None, sess_isAdmin = None\<rparr>"

datatype body =
    ErrorBody string
  | SignupBody string bool
  | LoginBody string bool string
  | MessageBody string
  | AuthBody bool "bool option" "string option"
  | CategoryBody category
  | CategoriesBody "category list"
  | ImageBody image
  | ImagesBody "image list"
  | DownloadBody string string
  | RedirectBody "string option"
  | ErrorPage

record response =
  status :: nat
  body :: body

text \<open>\<open>res.status(c).json({ error: e })\<close> and \<open>res.json(b)\<close>.\<close>

definition error_response :: "nat \<Rightarrow> string \<Rightarrow> response" where
  "error_response c e = \<lparr>status = c, body = ErrorBody e\<rparr>"

definition json :: "body \<Rightarrow> response" where
  "json b = \<lparr>status = 200, body = b\<rparr>"

text \<open>The guard \<open>isAdmin\<close>: \<open>req.session.userId && req.session.isAdmin\<close>. A number is
  truthy when it is not zero.\<close>

definition isAdmin :: "session \<Rightarrow> bool" where
  "isAdmin sess =
     ((case sess_userId sess of None \<Rightarrow> False | Some n \<Rightarrow> n \<noteq> 0)
      \<and> sess_isAdmin sess = Some True)"

definition isAuthenticated :: "session \<Rightarrow> bool" where
  "isAuthenticated sess = (case sess_userId sess of None \<Rightarrow> False | Some n \<Rightarrow> n \<noteq> 0)"

section \<open>Credential routes\<close>

text \<open>
  \<open>bcrypt.hash\<close> and \<open>bcrypt.compare\<close> belong to a library. They are parameters here:
  \<open>hash salt plain\<close> is the hash computed with the salt drawn in that call, and
  \<open>compare plain stored\<close> the verdict; \<open>None\<close> is a rejected promise, which the
  handlers' \<open>catch\<close> turns into status 500.
\<close>

type_synonym bcrypt_hash = "nat \<Rightarrow> string \<Rightarrow> string option"
type_synonym bcrypt_compare = "jsval \<Rightarrow> string \<Rightarrow> bool option"

text \<open>\<open>initializeAdmin\<close>, run once when the module loads; the two arguments are
  \<open>process.env.ADMIN_USERNAME\<close> and \<open>process.env.ADMIN_PASSWORD\<close>.\<close>

definition initializeAdmin ::
  "bcrypt_hash \<Rightarrow> nat \<Rightarrow> jsval \<Rightarrow> jsval \<Rightarrow> state \<Rightarrow> state" where
  "initializeAdmin hash salt ADMIN_USERNAME ADMIN_PASSWORD s =
     (case hash salt (js_or ADMIN_PASSWORD ''admin123'') of
        None \<Rightarrow> s
      | Some hashedPassword \<Rightarrow>
          s\<lparr>users := users s @
              [\<lparr>u_id = 1, u_username = js_or ADMIN_USERNAME ''admin'',
                u_password = hashedPassword, u_isAdmin = True\<rparr>]\<rparr>)"

text \<open>The state in which the server starts to answer requests.\<close>

definition boot :: "bcrypt_hash \<Rightarrow> nat \<Rightarrow> jsval \<Rightarrow> jsval \<Rightarrow> state" where
  "boot hash salt ADMIN_USERNAME ADMIN_PASSWORD =
     initializeAdmin hash salt ADMIN_USERNAME ADMIN_PASSWORD empty_state"

text \<open>\<open>users.find(u => u.username === username)\<close>\<close>

definition find_user :: "state \<Rightarrow> jsval \<Rightarrow> user option" where
  "find_user s username = find (\<lambda>u. Str (u_username u) = username) (users s)"

text \<open>\<open>POST /api/signup\<close>\<close>

definition signup :: "bcrypt_hash \<Rightarrow> nat \<Rightarrow> state \<Rightarrow> jsval \<Rightarrow> jsval \<Rightarrow> state \<times> response" where
  "signup hash salt s username password =
     (if \<not> truthy username \<or> \<not> truthy password
      then (s, error_response 400 ''Username and password required'')
      else if find_user s username \<noteq> None
      then (s, error_response 400 ''Username already exists'')
      else case hash salt (ToString password) of
             None \<Rightarrow> (s, error_response 500 ''Server error'')
           | Some hashedPassword \<Rightarrow>
               let newUser = \<lparr>u_id = length (users s) + 1,
                              u_username = ToString username,
                              u_password = hashedPassword,
                              u_isAdmin = (length (users s) = 0)\<rparr>
               in (s\<lparr>users := users s @ [newUser]\<rparr>,
                   json (SignupBody ''User created successfully'' (u_isAdmin newUser))))"

text \<open>\<open>POST /api/login\<close>; the session is returned as the handler leaves it.\<close>

definition login ::
  "bcrypt_compare \<Rightarrow> state \<Rightarrow> session \<Rightarrow> jsval \<Rightarrow> jsval \<Rightarrow> session \<times> response" where
  "login compare s sess username password =
     (case find_user s username of
        None \<Rightarrow> (sess, error_response 401 ''Invalid credentials'')
      | Some user \<Rightarrow>
          (case compare password (u_password user) of
             None \<Rightarrow> (sess, error_response 500 ''Server error'')
           | Some validPassword \<Rightarrow>
               if \<not> validPassword
               then (sess, error_response 401 ''Invalid credentials'')
               else (sess\<lparr>sess_userId := Some (u_id user),
                          sess_username := Some (u_username user),
                          sess_isAdmin := Some (u_isAdmin user)\<rparr>,
                     json (LoginBody ''Login successful'' (u_isAdmin user) (u_username user)))))"

text \<open>\<open>POST /api/logout\<close> and \<open>GET /api/check-auth\<close>\<close>

definition logout :: "session \<Rightarrow> session \<times> response" where
  "logout sess = (anonymous, json (MessageBody ''Logged out successfully''))"

definition check_auth :: "session \<Rightarrow> response" where
  "check_auth sess =
     (if isAuthenticated sess
      then json (AuthBody True (sess_isAdmin sess) (sess_username sess))
      else json (AuthBody False None None))"

section \<open>Runs of signups\<close>

text \<open>A run of signup requests, each with the salt its hash call draws.\<close>

record signup_request =
  rq_salt :: nat
  rq_username :: jsval
  rq_password :: jsval

fun signups :: "bcrypt_hash \<Rightarrow> state \<Rightarrow> signup_request list \<Rightarrow> state \<times> response list" where
  "signups hash s [] = (s, [])"
| "signups hash s (r # rs) =
     (let (s1, resp) = signup hash (rq_salt r) s (rq_username r) (rq_password r);
          (s2, resps) = signups hash s1 rs
      in (s2, resp # resps))"

text \<open>
  The signup handler is an \<open>async\<close> function with one \<open>await\<close>. What precedes
  \<open>await bcrypt.hash\<close> runs at once on the store of that moment: the two checks, with
  \<open>None\<close> when the handler goes on to hash. What follows runs when the hash is there, on
  the store of that later moment; \<open>hashed\<close> is the outcome of the hash. \<open>signup\<close> above
  is the handler with no other request served in between.
\<close>

definition signup_check :: "state \<Rightarrow> jsval \<Rightarrow> jsval \<Rightarrow> response option" where
  "signup_check s username password =
     (if \<not> truthy username \<or> \<not> truthy password
      then Some (error_response 400 ''Username and password required'')
      else if find_user s username \<noteq> None
      then Some (error_response 400 ''Username already exists'')
      else None)"

definition signup_resume :: "state \<Rightarrow> jsval \<Rightarrow> string option \<Rightarrow> state \<times> response" where
  "signup_resume s username hashed =
     (case hashed of
        None \<Rightarrow> (s, error_response 500 ''Server error'')
      | Some hashedPassword \<Rightarrow>
          let newUser = \<lparr>u_id = length (users s) + 1,
                         u_username = ToString username,
                         u_password = hashedPassword,
                         u_isAdmin = (length (users s) = 0)\<rparr>
          in (s\<lparr>users := users s @ [newUser]\<rparr>,
              json (SignupBody ''User created successfully'' (u_isAdmin newUser))))"

text \<open>A response with status 200, and the users a run has added to the store.\<close>

definition succeeded :: "response \<Rightarrow> bool" where
  "succeeded r = (status r = 200)"

definition created :: "state \<Rightarrow> state \<Rightarrow> user list" where
  "created s s' = drop (length (users s)) (users s')"

text \<open>The admin flags of \<open>k\<close> users created one after the other, the first of them
  getting flag \<open>e\<close> and every later one \<open>False\<close>.\<close>

fun admin_flags :: "bool \<Rightarrow> nat \<Rightarrow> bool list" where
  "admin_flags e 0 = []"
| "admin_flags e (Suc k) = e # admin_flags False k"

section \<open>Categories\<close>

text \<open>\<open>POST /api/categories\<close>, behind \<open>isAdmin\<close>; \<open>now\<close> is the value of \<open>new Date()\<close>.\<close>

definition create_category :: "state \<Rightarrow> session \<Rightarrow> jsval \<Rightarrow> nat \<Rightarrow> state \<times> response" where
  "create_category s sess name now =
     (if \<not> isAdmin sess then (s, error_response 403 ''Admin access required'')
      else if \<not> truthy name then (s, error_response 400 ''Category name required'')
      else let newCategory = \<lparr>c_id = length (categories s) + 1,
                               c_name = ToString name,
                               c_createdAt = now\<rparr>
           in (s\<lparr>categories := categories s @ [newCategory]\<rparr>, json (CategoryBody newCategory)))"

text \<open>\<open>GET /api/categories\<close>\<close>

definition list_categories :: "state \<Rightarrow> response" where
  "list_categories s = json (CategoriesBody (categories s))"

section \<open>Images\<close>

text \<open>\<open>req.files.image\<close>, when a file came with the request.\<close>

record uploaded_file =
  f_name :: string
  f_mimetype :: string
  f_data :: string

text \<open>What a handler asks of the storage collaborator: \<open>image.mv\<close> to the uploads
  directory and \<open>fs.unlinkSync\<close> there (by file name), \<open>upload_stream\<close> of the file's
  bytes and \<open>uploader.destroy\<close> of a public id. The outcome of a call is an input of the
  handler.\<close>

datatype storage_call =
    Mv string
  | Unlink string
  | UploadStream string
  | Destroy "string option"

record cloud_result =
  secure_url :: string
  public_id :: string

definition allowedTypes_local :: "string list" where
  "allowedTypes_local = [''image/jpeg'', ''image/jpg'', ''image/png'', ''image/gif'']"

definition allowedTypes_cloud :: "string list" where
  "allowedTypes_cloud =
     [''image/jpeg'', ''image/jpg'', ''image/png'', ''image/gif'', ''image/webp'']"

text \<open>Decimal digits of a number, as string concatenation renders \<open>Date.now()\<close>.\<close>

definition digit_char :: "nat \<Rightarrow> char" where
  "digit_char d = char_of (48 + d)"

fun decimal :: "nat \<Rightarrow> string" where
  "decimal n = (if n < 10 then [digit_char n] else decimal (n div 10) @ [digit_char (n mod 10)])"

declare decimal.simps [simp del]

text \<open>\<open>name.replace(/\s/g, '-')\<close>\<close>

definition replace_ws :: "string \<Rightarrow> string" where
  "replace_ws name = map (\<lambda>c. if is_ws c then CHR ''-'' else c) name"

text \<open>\<open>POST /api/upload\<close>, local-disk variant. \<open>now\<close> is \<open>Date.now()\<close>, \<open>uploadedAt\<close> is
  \<open>new Date()\<close> in the callback of \<open>image.mv\<close>, and \<open>err\<close> tells whether that callback
  received an error.\<close>

definition upload_local ::
  "state \<Rightarrow> session \<Rightarrow> uploaded_file option \<Rightarrow> jsval \<Rightarrow> nat \<Rightarrow> nat \<Rightarrow> bool
   \<Rightarrow> state \<times> response \<times> storage_call list" where
  "upload_local s sess files categoryId now uploadedAt err =
     (if \<not> isAdmin sess then (s, error_response 403 ''Admin access required'', [])
      else case files of
             None \<Rightarrow> (s, error_response 400 ''No image uploaded'', [])
           | Some image' \<Rightarrow>
               if f_mimetype image' \<notin> set allowedTypes_local
               then (s, error_response 400 ''Only image files allowed'', [])
               else let fileName = decimal now @ ''-'' @ replace_ws (f_name image')
                    in if err
                       then (s, error_response 500 ''Failed to upload image'', [Mv fileName])
                       else let newImage =
                                  \<lparr>i_id = length (images s) + 1,
                                   i_fileName = fileName,
                                   i_originalName = f_name image',
                                   i_cloudinaryUrl = None,
                                   i_cloudinaryPublicId = None,
                                   i_categoryId = parseInt categoryId,
                                   i_uploadedBy = sess_username sess,
                                   i_uploadedAt = uploadedAt,
                                   i_path = ''/uploads/'' @ fileName\<rparr>
                            in (s\<lparr>images := images s @ [newImage]\<rparr>,
                                json (ImageBody newImage), [Mv fileName]))"

text \<open>\<open>POST /api/upload\<close>, Cloudinary variant. \<open>result\<close> is what \<open>uploadPromise\<close>
  resolves to, \<open>None\<close> when it rejects.\<close>

definition upload_cloud ::
  "state \<Rightarrow> session \<Rightarrow> uploaded_file option \<Rightarrow> jsval \<Rightarrow> nat \<Rightarrow> cloud_result option
   \<Rightarrow> state \<times> response \<times> storage_call list" where
  "upload_cloud s sess files categoryId uploadedAt result =
     (if \<not> isAdmin sess then (s, error_response 403 ''Admin access required'', [])
      else case files of
             None \<Rightarrow> (s, error_response 400 ''No image uploaded'', [])
           | Some image' \<Rightarrow>
               if f_mimetype image' \<notin> set allowedTypes_cloud
               then (s, error_response 400 ''Only image files allowed'', [])
               else case result of
                      None \<Rightarrow> (s, error_response 500 ''Failed to upload image to Cloudinary'',
                                [UploadStream (f_data image')])
                    | Some res \<Rightarrow>
                        let newImage =
                              \<lparr>i_id = length (images s) + 1,
                               i_fileName = f_name image',
                               i_originalName = f_name image',
                               i_cloudinaryUrl = Some (secure_url res),
                               i_cloudinaryPublicId = Some (public_id res),
                               i_categoryId = parseInt categoryId,
                               i_uploadedBy = sess_username sess,
                               i_uploadedAt = uploadedAt,
                               i_path = secure_url res\<rparr>
                        in (s\<lparr>images := images s @ [newImage]\<rparr>,
                            json (ImageBody newImage), [UploadStream (f_data image')]))"

text \<open>\<open>GET /api/images\<close>, the same in both variants.\<close>

definition list_images :: "state \<Rightarrow> jsval \<Rightarrow> response" where
  "list_images s categoryId =
     (let filteredImages =
            (if truthy categoryId
             then filter (\<lambda>img. strict_eq (i_categoryId img) (parseInt categoryId)) (images s)
             else images s)
      in json (ImagesBody filteredImages))"

text \<open>The images a listing response carries.\<close>

definition listed :: "response \<Rightarrow> image list" where
  "listed r = (case body r of ImagesBody xs \<Rightarrow> xs | _ \<Rightarrow> [])"

text \<open>\<open>img.id === imageId\<close>\<close>

definition id_is :: "jsnum \<Rightarrow> image \<Rightarrow> bool" where
  "id_is imageId img = strict_eq (Num (int (i_id img))) imageId"

text \<open>
  What \<open>res.download\<close> does with the file it is given: the file is sent, or it cannot
  be read and express answers with its own error page, of the given status (404 when the
  file is missing).
\<close>

datatype transfer = Sent | NotSent nat

text \<open>\<open>GET /api/download/:id\<close>. The local variant hands the file of the image found,
  with its original name, to \<open>res.download\<close>, whose outcome is an input; the Cloudinary
  variant redirects to the stored URL.\<close>

definition download_local :: "state \<Rightarrow> session \<Rightarrow> string \<Rightarrow> transfer \<Rightarrow> response" where
  "download_local s sess id_param outcome =
     (if \<not> isAdmin sess then error_response 403 ''Admin access required''
      else let imageId = parseInt (Str id_param)
           in case find (id_is imageId) (images s) of
                None \<Rightarrow> error_response 404 ''Image not found''
              | Some image' \<Rightarrow>
                  (case outcome of
                     Sent \<Rightarrow>
                       \<lparr>status = 200,
                        body = DownloadBody (i_fileName image') (i_originalName image')\<rparr>
                   | NotSent c \<Rightarrow> \<lparr>status = c, body = ErrorPage\<rparr>))"

definition download_cloud :: "state \<Rightarrow> session \<Rightarrow> string \<Rightarrow> response" where
  "download_cloud s sess id_param =
     (if \<not> isAdmin sess then error_response 403 ''Admin access required''
      else let imageId = parseInt (Str id_param)
           in case find (id_is imageId) (images s) of
                None \<Rightarrow> error_response 404 ''Image not found''
              | Some image' \<Rightarrow> \<lparr>status = 302, body = RedirectBody (i_cloudinaryUrl image')\<rparr>)"

text \<open>\<open>xs.findIndex(P)\<close>, with \<open>None\<close> for \<open>-1\<close>, and \<open>xs.splice(i, 1)\<close>.\<close>

fun findIndex :: "('a \<Rightarrow> bool) \<Rightarrow> 'a list \<Rightarrow> nat option" where
  "findIndex P [] = None"
| "findIndex P (x # xs) = (if P x then Some 0 else map_option Suc (findIndex P xs))"

definition splice1 :: "nat \<Rightarrow> 'a list \<Rightarrow> 'a list" where
  "splice1 i xs = take i xs @ drop (Suc i) xs"

text \<open>\<open>DELETE /api/images/:id\<close>. \<open>removed\<close> tells whether the storage call returned
  (\<open>fs.unlinkSync\<close> did not throw, the promise of \<open>uploader.destroy\<close> resolved).\<close>

definition delete_local ::
  "state \<Rightarrow> session \<Rightarrow> string \<Rightarrow> bool \<Rightarrow> state \<times> response \<times> storage_call list" where
  "delete_local s sess id_param removed =
     (if \<not> isAdmin sess then (s, error_response 403 ''Admin access required'', [])
      else let imageId = parseInt (Str id_param)
           in case findIndex (id_is imageId) (images s) of
                None \<Rightarrow> (s, error_response 404 ''Image not found'', [])
              | Some imageIndex \<Rightarrow>
                  let image' = images s ! imageIndex
                  in if \<not> removed
                     then (s, error_response 500 ''Server error'', [Unlink (i_fileName image')])
                     else (s\<lparr>images := splice1 imageIndex (images s)\<rparr>,
                           json (MessageBody ''Image deleted successfully''),
                           [Unlink (i_fileName image')]))"

definition delete_cloud ::
  "state \<Rightarrow> session \<Rightarrow> string \<Rightarrow> bool \<Rightarrow> state \<times> response \<times> storage_call list" where
  "delete_cloud s sess id_param removed =
     (if \<not> isAdmin sess then (s, error_response 403 ''Admin access required'', [])
      else let imageId = parseInt (Str id_param)
           in case findIndex (id_is imageId) (images s) of
                None \<Rightarrow> (s, error_response 404 ''Image not found'', [])
              | Some imageIndex \<Rightarrow>
                  let image' = images s ! imageIndex
                  in if \<not> removed
                     then (s, error_response 500 ''Failed to delete image'',
                           [Destroy (i_cloudinaryPublicId image')])
                     else (s\<lparr>images := splice1 imageIndex (images s)\<rparr>,
                           json (MessageBody ''Image deleted successfully''),
                           [Destroy (i_cloudinaryPublicId image')]))"

section \<open>A stand-in for bcrypt\<close>

text \<open>
  A pair of functions with the interface of \<open>bcrypt.hash\<close> and \<open>bcrypt.compare\<close>, used to
  run the handlers on concrete requests: the hash is the salt, a dollar sign and the
  plain text; comparing anything but a string is rejected.
\<close>

definition demo_hash :: bcrypt_hash where
  "demo_hash salt plain = Some (decimal salt @ ''$'' @ plain)"

definition demo_compare :: bcrypt_compare where
  "demo_compare v stored =
     (case v of
        Undefined \<Rightarrow> None
      | Str plain \<Rightarrow> Some (drop 1 (dropWhile (\<lambda>c. c \<noteq> CHR ''$'') stored) = plain))"

text \<open>What the round trip of the spec can ask of the library: a string verifies against
  the hash made from it.\<close>

definition bcrypt_verifies :: "bcrypt_hash \<Rightarrow> bcrypt_compare \<Rightarrow> bool" where
  "bcrypt_verifies hash compare =
     (\<forall>salt plain stored. hash salt plain = Some stored \<longrightarrow> compare (Str plain) stored = Some True)"

text \<open>
  A second stand-in, which like bcrypt reads no more than the first 72 characters of the
  plain text, and two plain texts of 73 characters that differ in the last one.
\<close>

definition bcrypt72_hash :: bcrypt_hash where
  "bcrypt72_hash salt plain = Some (decimal salt @ ''$'' @ take 72 plain)"

definition bcrypt72_compare :: bcrypt_compare where
  "bcrypt72_compare v stored =
     (case v of
        Undefined \<Rightarrow> None
      | Str plain \<Rightarrow> Some (drop 1 (dropWhile (\<lambda>c. c \<noteq> CHR ''$'') stored) = take 72 plain))"

definition long_plain :: string where
  "long_plain = replicate 72 (CHR ''a'') @ ''b''"

definition long_other :: string where
  "long_other = replicate 72 (CHR ''a'') @ ''c''"

section \<open>Concrete sessions and stores\<close>

text \<open>The store after start-up with no environment variables set, its one user, and the
  sessions of an administrator and of an ordinary user, for running the handlers.\<close>

definition demo_boot :: state where
  "demo_boot = boot demo_hash 7 Undefined Undefined"

definition demo_admin :: user where
  "demo_admin =
     \<lparr>u_id = 1, u_username = ''admin'', u_password = ''7$admin123'', u_isAdmin = True\<rparr>"

definition admin_session :: session where
  "admin_session =
     \<lparr>sess_userId = Some 1, sess_username = Some ''admin'', sess_isAdmin = Some True\<rparr>"

definition member_session :: session where
  "member_session =
     \<lparr>sess_userId = Some 2, sess_username = Some ''alice'', sess_isAdmin = Some False\<rparr>"

text \<open>Three signup requests, the second repeating the first one's username, and what
  they leave behind.\<close>

definition demo_requests :: "signup_request list" where
  "demo_requests =
     [\<lparr>rq_salt = 1, rq_username = Str ''ann'', rq_password = Str ''x''\<rparr>,
      \<lparr>rq_salt = 2, rq_username = Str ''ann'', rq_password = Str ''y''\<rparr>,
      \<lparr>rq_salt = 3, rq_username = Str ''bob'', rq_password = Str ''y''\<rparr>]"

definition demo_ann :: "bool \<Rightarrow> nat \<Rightarrow> user" where
  "demo_ann a n = \<lparr>u_id = n, u_username = ''ann'', u_password = ''1$x'', u_isAdmin = a\<rparr>"

definition demo_bob :: "nat \<Rightarrow> user" where
  "demo_bob n = \<lparr>u_id = n, u_username = ''bob'', u_password = ''3$y'', u_isAdmin = False\<rparr>"

definition demo_responses :: "bool \<Rightarrow> response list" where
  "demo_responses a =
     [\<lparr>status = 200, body = SignupBody ''User created successfully'' a\<rparr>,
      \<lparr>status = 400, body = ErrorBody ''Username already exists''\<rparr>,
      \<lparr>status = 200, body = SignupBody ''User created successfully'' False\<rparr>]"

text \<open>A store in which the username \<open>ann\<close> occurs twice, with the passwords \<open>x\<close> and
  \<open>y\<close>.\<close>

definition demo_twins :: state where
  "demo_twins =
     \<lparr>users = [demo_admin,
               \<lparr>u_id = 2, u_username = ''ann'', u_password = ''1$x'', u_isAdmin = False\<rparr>,
               \<lparr>u_id = 3, u_username = ''ann'', u_password = ''2$y'', u_isAdmin = False\<rparr>],
      categories = [], images = []\<rparr>"

text \<open>An uploaded picture, an uploaded text file, image records as the local variant
  makes them, and a store with four images.\<close>

definition demo_file :: uploaded_file where
  "demo_file = \<lparr>f_name = ''my cat.png'', f_mimetype = ''image/png'', f_data = ''PNG''\<rparr>"

definition demo_text :: uploaded_file where
  "demo_text = \<lparr>f_name = ''notes.txt'', f_mimetype = ''text/plain'', f_data = ''hello''\<rparr>"

definition demo_image :: "nat \<Rightarrow> jsnum \<Rightarrow> image" where
  "demo_image n cat =
     \<lparr>i_id = n, i_fileName = ''5-my-cat.png'', i_originalName = ''my cat.png'',
      i_cloudinaryUrl = None, i_cloudinaryPublicId = None, i_categoryId = cat,
      i_uploadedBy = Some ''admin'', i_uploadedAt = 6, i_path = ''/uploads/5-my-cat.png''\<rparr>"

definition demo_gallery :: state where
  "demo_gallery =
     \<lparr>users = [demo_admin], categories = [],
      images = [demo_image 1 (Num 2), demo_image 2 NaN, demo_image 3 (Num 2),
                demo_image 4 (Num 7)]\<rparr>"

section \<open>Evaluation lemmas\<close>

lemma decimal_digit: "n < 10 \<Longrightarrow> decimal n = [digit_char n]"
  by (simp add: decimal.simps)

lemma digit_char_numerals:
  "digit_char 0 = CHR ''0''" "digit_char 1 = CHR ''1''" "digit_char 2 = CHR ''2''"
  "digit_char 3 = CHR ''3''" "digit_char 4 = CHR ''4''" "digit_char 5 = CHR ''5''"
  "digit_char 6 = CHR ''6''" "digit_char 7 = CHR ''7''" "digit_char 8 = CHR ''8''"
  "digit_char 9 = CHR ''9''"
  by (simp_all add: digit_char_def char_of_def bit_Suc_0_iff)

lemma demo_boot_eq: "demo_boot = \<lparr>users = [demo_admin], categories = [], images = []\<rparr>"
  by (simp add: demo_boot_def boot_def initializeAdmin_def demo_hash_def empty_state_def
      demo_admin_def decimal_digit digit_char_numerals)

lemma isAdmin_admin_session: "isAdmin admin_session"
  by (simp add: isAdmin_def admin_session_def)

lemma digit_char_Suc_0: "digit_char (Suc 0) = CHR ''1''"
  using digit_char_numerals(2) by simp

lemmas demo_eval =
  digit_char_Suc_0 signup_def find_user_def demo_hash_def error_response_def json_def decimal_digit
  digit_char_numerals demo_requests_def demo_ann_def demo_bob_def demo_responses_def
  demo_admin_def empty_state_def

lemma demo_run_empty:
  "signups demo_hash empty_state demo_requests
     = (\<lparr>users = [demo_ann True 1, demo_bob 2], categories = [], images = []\<rparr>,
        demo_responses True)"
  by (simp add: demo_eval)

lemma demo_run_boot:
  "signups demo_hash demo_boot demo_requests
     = (\<lparr>users = [demo_admin, demo_ann False 2, demo_bob 3], categories = [], images = []\<rparr>,
        demo_responses False)"
  by (simp add: demo_eval demo_boot_eq)

section \<open>Signup\<close>

lemma admin_flags_False: "admin_flags False k = replicate k False"
  by (induction k) simp_all

lemma length_admin_flags: "length (admin_flags e k) = k"
  by (induction k arbitrary: e) simp_all

lemma find_user_member:
  "u \<in> set (users s) \<Longrightarrow> find_user s (Str (u_username u)) \<noteq> None"
  by (auto simp: find_user_def find_None_iff)

lemma signup_result:
  assumes "signup hash salt s u p = (s1, r)"
  shows "if succeeded r
         then body r = SignupBody ''User created successfully'' (users s = [])
              \<and> (\<exists>nu. users s1 = users s @ [nu] \<and> u_isAdmin nu = (users s = []))
         else s1 = s"
  using assms
  by (auto simp: signup_def succeeded_def error_response_def json_def Let_def
      split: if_splits option.splits)

lemma signups_flags:
  "signups hash s rs = (s', resps) \<Longrightarrow>
   \<exists>new. users s' = users s @ new
     \<and> map u_isAdmin new = admin_flags (users s = []) (length (filter succeeded resps))
     \<and> map body (filter succeeded resps)
         = map (SignupBody ''User created successfully'')
             (admin_flags (users s = []) (length (filter succeeded resps)))"
proof (induction rs arbitrary: s s' resps)
  case Nil
  then show ?case by simp
next
  case (Cons q rs)
  obtain s1 r where step: "signup hash (rq_salt q) s (rq_username q) (rq_password q) = (s1, r)"
    by (cases "signup hash (rq_salt q) s (rq_username q) (rq_password q)")
  obtain s2 rest where run: "signups hash s1 rs = (s2, rest)"
    by (cases "signups hash s1 rs")
  from Cons.prems step run have eqs: "s' = s2" "resps = r # rest"
    by simp_all
  from Cons.IH [OF run] obtain new where new:
    "users s2 = users s1 @ new"
    "map u_isAdmin new = admin_flags (users s1 = []) (length (filter succeeded rest))"
    "map body (filter succeeded rest)
       = map (SignupBody ''User created successfully'')
           (admin_flags (users s1 = []) (length (filter succeeded rest)))"
    by blast
  show ?case
  proof (cases "succeeded r")
    case False
    with signup_result [OF step] have "s1 = s" by simp
    with new False eqs show ?thesis by simp
  next
    case True
    with signup_result [OF step] obtain nu where nu:
      "body r = SignupBody ''User created successfully'' (users s = [])"
      "users s1 = users s @ [nu]" "u_isAdmin nu = (users s = [])"
      by auto
    then have "users s1 \<noteq> []" by simp
    with new nu True eqs show ?thesis
      by (intro exI [of _ "nu # new"]) simp
  qed
qed


lemma map_replicate_all: "map f xs = replicate k c \<Longrightarrow> \<forall>x\<in>set xs. f x = c"
proof
  fix x
  assume eq: "map f xs = replicate k c" and x: "x \<in> set xs"
  from x have "f x \<in> set (map f xs)" by simp
  with eq have "f x \<in> set (replicate k c)" by simp
  then show "f x = c" by simp
qed

lemma flags_shape:
  assumes f: "map f new = admin_flags e (length ok)"
    and g: "map g ok = map h (admin_flags e (length ok))"
  shows "(\<not> e \<longrightarrow> (\<forall>u\<in>set new. \<not> f u) \<and> (\<forall>r\<in>set ok. g r = h False))
       \<and> (e \<longrightarrow> ok \<noteq> [] \<longrightarrow>
            f (hd new) \<and> g (hd ok) = h True
            \<and> (\<forall>u\<in>set (tl new). \<not> f u) \<and> (\<forall>r\<in>set (tl ok). g r = h False))"
proof (cases ok)
  case Nil
  with f have "new = []" by simp
  with Nil show ?thesis by simp
next
  case (Cons r0 ok')
  with f obtain nu new' where n: "new = nu # new'"
    by (cases new) simp_all
  from f g Cons n have a: "f nu = e" "map f new' = replicate (length ok') False"
    and b: "g r0 = h e" "map g ok' = replicate (length ok') (h False)"
    by (simp_all add: admin_flags_False)
  from a b map_replicate_all [OF a(2)] map_replicate_all [OF b(2)] n Cons
  show ?thesis by auto
qed

lemma boot_users:
  "hash salt0 (js_or P ''admin123'') \<noteq> None \<Longrightarrow> users (boot hash salt0 U P) \<noteq> []"
  by (auto simp: boot_def initializeAdmin_def)

text \<open>
  C1, as the code has it. A successful signup creates an administrator exactly when the
  store holds no user before it. So in a run of signups from a store with no user the
  first successful one creates a user with \<open>isAdmin = true\<close> and reports it, and every
  later one creates a user with \<open>isAdmin = false\<close>; in a run from a store that already
  holds a user every successful signup creates a user with \<open>isAdmin = false\<close>. The
  store in which the server starts holds the default administrator whenever its password
  could be hashed. Existing users are never touched.
\<close>

theorem signups_admin_flag:
  assumes "signups hash s rs = (s', resps)"
  shows "users s' = users s @ created s s'
       \<and> length (created s s') = length (filter succeeded resps)
       \<and> (users s \<noteq> [] \<longrightarrow>
            (\<forall>u\<in>set (created s s'). \<not> u_isAdmin u)
            \<and> (\<forall>r\<in>set (filter succeeded resps).
                 body r = SignupBody ''User created successfully'' False))
       \<and> (users s = [] \<longrightarrow> filter succeeded resps \<noteq> [] \<longrightarrow>
            u_isAdmin (hd (created s s'))
            \<and> body (hd (filter succeeded resps)) = SignupBody ''User created successfully'' True
            \<and> (\<forall>u\<in>set (tl (created s s')). \<not> u_isAdmin u)
            \<and> (\<forall>r\<in>set (tl (filter succeeded resps)).
                 body r = SignupBody ''User created successfully'' False))
       \<and> (hash salt0 (js_or P ''admin123'') \<noteq> None \<longrightarrow> users (boot hash salt0 U P) \<noteq> [])"
proof -
  from signups_flags [OF assms] obtain new where new:
    "users s' = users s @ new"
    "map u_isAdmin new = admin_flags (users s = []) (length (filter succeeded resps))"
    "map body (filter succeeded resps)
       = map (SignupBody ''User created successfully'')
           (admin_flags (users s = []) (length (filter succeeded resps)))"
    by blast
  have cr: "created s s' = new"
    using new(1) by (simp add: created_def)
  have len: "length new = length (filter succeeded resps)"
    using arg_cong [OF new(2), of length] by (simp add: length_admin_flags)
  note shape = flags_shape [OF new(2) new(3)]
  have A: "users s' = users s @ created s s'"
    unfolding cr by (rule new(1))
  have B: "length (created s s') = length (filter succeeded resps)"
    unfolding cr by (rule len)
  have C: "users s \<noteq> [] \<longrightarrow>
      (\<forall>u\<in>set (created s s'). \<not> u_isAdmin u)
      \<and> (\<forall>r\<in>set (filter succeeded resps).
           body r = SignupBody ''User created successfully'' False)"
    unfolding cr by (rule conjunct1 [OF shape])
  have D: "users s = [] \<longrightarrow> filter succeeded resps \<noteq> [] \<longrightarrow>
      u_isAdmin (hd (created s s'))
      \<and> body (hd (filter succeeded resps)) = SignupBody ''User created successfully'' True
      \<and> (\<forall>u\<in>set (tl (created s s')). \<not> u_isAdmin u)
      \<and> (\<forall>r\<in>set (tl (filter succeeded resps)).
           body r = SignupBody ''User created successfully'' False)"
    unfolding cr by (rule conjunct2 [OF shape])
  have E: "hash salt0 (js_or P ''admin123'') \<noteq> None \<longrightarrow> users (boot hash salt0 U P) \<noteq> []"
    by (rule impI) (rule boot_users)
  show ?thesis
    by (rule conjI [OF A conjI [OF B conjI [OF C conjI [OF D E]]]])
qed


theorem signups_admin_flag_witness:
  "signups demo_hash empty_state demo_requests
     = (\<lparr>users = [demo_ann True 1, demo_bob 2], categories = [], images = []\<rparr>,
        demo_responses True)
   \<and> signups demo_hash demo_boot demo_requests
     = (\<lparr>users = [demo_admin, demo_ann False 2, demo_bob 3], categories = [], images = []\<rparr>,
        demo_responses False)
   \<and> users empty_state = [] \<and> users demo_boot \<noteq> []
   \<and> filter succeeded (demo_responses True) \<noteq> []
   \<and> u_isAdmin (demo_ann True 1) \<and> \<not> u_isAdmin (demo_bob 2)
   \<and> \<not> u_isAdmin (demo_ann False 2) \<and> \<not> u_isAdmin (demo_bob 3)
   \<and> demo_hash 7 (js_or Undefined ''admin123'') \<noteq> None"
proof -
  have c: "users empty_state = []" "users demo_boot \<noteq> []"
    "filter succeeded (demo_responses True) \<noteq> []"
    "u_isAdmin (demo_ann True 1)" "\<not> u_isAdmin (demo_bob 2)"
    "\<not> u_isAdmin (demo_ann False 2)" "\<not> u_isAdmin (demo_bob 3)"
    "demo_hash 7 (js_or Undefined ''admin123'') \<noteq> None"
    by (simp_all add: demo_boot_eq empty_state_def demo_responses_def succeeded_def
        demo_ann_def demo_bob_def demo_hash_def)
  from signups_admin_flag [OF demo_run_empty, where ?salt0.0 = 7 and P = Undefined]
    signups_admin_flag [OF demo_run_boot, where ?salt0.0 = 7 and P = Undefined]
  show ?thesis
    by (simp only: demo_run_empty demo_run_boot c simp_thms)
qed

text \<open>
  C1, as stated, fails: after start-up the first successful signup creates a user with
  \<open>isAdmin = false\<close> and the response says so.
\<close>

theorem first_signup_after_boot_counterexample:
  "signups demo_hash (boot demo_hash 7 Undefined Undefined)
     [\<lparr>rq_salt = 3, rq_username = Str ''bob'', rq_password = Str ''y''\<rparr>]
   = (\<lparr>users = [\<lparr>u_id = 1, u_username = ''admin'', u_password = ''7$admin123'',
                   u_isAdmin = True\<rparr>,
                 \<lparr>u_id = 2, u_username = ''bob'', u_password = ''3$y'', u_isAdmin = False\<rparr>],
        categories = [], images = []\<rparr>,
      [\<lparr>status = 200, body = SignupBody ''User created successfully'' False\<rparr>])"
  by (simp add: demo_eval boot_def initializeAdmin_def)

text \<open>
  C2, as the code has it. A signup with the (non-empty) username of an existing user and a
  non-empty password answers 400 with \<open>{ error: 'Username already exists' }\<close> and leaves
  the state as it was; with an empty or absent password it answers 400 with
  \<open>{ error: 'Username and password required' }\<close>, the state again as it was.
\<close>

theorem signup_duplicate_username:
  assumes "u \<in> set (users s)" and "u_username u \<noteq> []"
  shows "(password \<noteq> [] \<longrightarrow>
            signup hash salt s (Str (u_username u)) (Str password)
              = (s, error_response 400 ''Username already exists''))
       \<and> signup hash salt s (Str (u_username u)) (Str [])
           = (s, error_response 400 ''Username and password required'')
       \<and> signup hash salt s (Str (u_username u)) Undefined
           = (s, error_response 400 ''Username and password required'')"
  using assms find_user_member [OF assms(1)] by (simp add: signup_def)

theorem signup_duplicate_username_witness:
  "demo_admin \<in> set (users demo_boot) \<and> u_username demo_admin \<noteq> [] \<and> ''other'' \<noteq> []
   \<and> signup demo_hash 3 demo_boot (Str ''admin'') (Str ''other'')
       = (demo_boot, \<lparr>status = 400, body = ErrorBody ''Username already exists''\<rparr>)"
  using signup_duplicate_username [of demo_admin demo_boot "''other''" demo_hash 3]
  by (simp add: demo_boot_eq demo_admin_def error_response_def)

text \<open>
  C2, as stated, fails for the empty password: the signup is refused as invalid input
  before the username is looked up.
\<close>

theorem signup_duplicate_empty_password_counterexample:
  "u_username (hd (users (boot demo_hash 7 Undefined Undefined))) = ''admin''
   \<and> signup demo_hash 3 (boot demo_hash 7 Undefined Undefined) (Str ''admin'') (Str [])
       = (boot demo_hash 7 Undefined Undefined,
          \<lparr>status = 400, body = ErrorBody ''Username and password required''\<rparr>)"
  by (simp add: signup_def error_response_def boot_def initializeAdmin_def demo_hash_def
      empty_state_def)


section \<open>Login\<close>

lemma digit_of_digit_char: "d < 10 \<Longrightarrow> digit_of (digit_char d) = Some d"
  by (simp add: digit_of_def digit_char_def Let_def)

lemma digit_char_not_dollar: "d < 10 \<Longrightarrow> digit_char d \<noteq> CHR ''$''"
proof
  assume d: "d < 10" and eq: "digit_char d = CHR ''$''"
  from digit_of_digit_char [OF d] eq have "digit_of CHR ''$'' = Some d" by simp
  then show False by (simp add: digit_of_def)
qed

lemma decimal_no_dollar: "CHR ''$'' \<notin> set (decimal n)"
proof (induction n rule: decimal.induct)
  case (1 n)
  show ?case
  proof (cases "n < 10")
    case True
    then show ?thesis
      using digit_char_not_dollar [of n] by (auto simp: decimal_digit)
  next
    case False
    have "n mod 10 < 10" by simp
    from digit_char_not_dollar [OF this] 1 False show ?thesis
      by (subst decimal.simps) auto
  qed
qed

lemma strip_salt:
  "drop 1 (dropWhile (\<lambda>c. c \<noteq> CHR ''$'') (decimal salt @ ''$'' @ rest)) = rest"
proof -
  have "dropWhile (\<lambda>c. c \<noteq> CHR ''$'') (decimal salt @ ''$'' @ rest) = ''$'' @ rest"
    using decimal_no_dollar [of salt] by (auto simp: dropWhile_append3)
  then show ?thesis by simp
qed

lemma demo_verifies: "bcrypt_verifies demo_hash demo_compare"
  using strip_salt by (auto simp: bcrypt_verifies_def demo_hash_def demo_compare_def)

lemma bcrypt72_verifies: "bcrypt_verifies bcrypt72_hash bcrypt72_compare"
  using strip_salt by (auto simp: bcrypt_verifies_def bcrypt72_hash_def bcrypt72_compare_def)

lemma find_user_Some:
  "find_user s username = Some u \<Longrightarrow> u \<in> set (users s) \<and> Str (u_username u) = username"
  by (auto simp: find_user_def find_Some_iff)

lemma find_user_index:
  "find_user s username = Some u \<longleftrightarrow>
     (\<exists>i<length (users s). Str (u_username (users s ! i)) = username \<and> u = users s ! i
        \<and> (\<forall>j<i. Str (u_username (users s ! j)) \<noteq> username))"
  by (simp add: find_user_def find_Some_iff)

lemma find_user_first:
  assumes "i < length (users s)" and "Str (u_username (users s ! i)) = username"
    and "\<forall>j<i. Str (u_username (users s ! j)) \<noteq> username"
  shows "find_user s username = Some (users s ! i)"
  unfolding find_user_index using assms by blast

lemma find_user_distinct:
  assumes "distinct (map u_username (users s))" and "u \<in> set (users s)"
  shows "find_user s (Str (u_username u)) = Some u"
proof -
  from find_user_member [OF assms(2)] obtain v where v: "find_user s (Str (u_username u)) = Some v"
    by auto
  from find_user_Some [OF v] have "v \<in> set (users s)" "u_username v = u_username u"
    by simp_all
  with assms have "v = u"
    by (meson distinct_map inj_onD)
  with v show ?thesis by simp
qed

lemma login_succeeded_iff:
  "succeeded (snd (login compare s sess username password)) \<longleftrightarrow>
     (\<exists>u. find_user s username = Some u \<and> compare password (u_password u) = Some True)"
  by (auto simp: login_def succeeded_def error_response_def json_def
      split: option.splits)

lemma find_snoc:
  "find P xs = None \<Longrightarrow> find P (xs @ [y]) = (if P y then Some y else None)"
  by (induction xs) (auto split: if_splits)

lemma signup_success:
  assumes "signup hash salt s (Str name) (Str P) = (s1, r)" and "succeeded r"
  shows "\<exists>h. hash salt P = Some h \<and> find_user s (Str name) = None
           \<and> users s1 = users s @ [\<lparr>u_id = length (users s) + 1, u_username = name,
                                      u_password = h, u_isAdmin = (users s = [])\<rparr>]"
  using assms
  by (auto simp: signup_def succeeded_def error_response_def json_def Let_def
      split: if_splits option.splits)

text \<open>The handler run without interruption is its first part followed by its second on
  the same store.\<close>

lemma signup_atomic:
  "signup hash salt s username password =
     (case signup_check s username password of
        Some r \<Rightarrow> (s, r)
      | None \<Rightarrow> signup_resume s username (hash salt (ToString password)))"
  by (simp add: signup_def signup_check_def signup_resume_def)

text \<open>Signups handled one at a time keep the usernames distinct.\<close>

lemma signup_distinct:
  assumes "distinct (map u_username (users s))"
    and "signup hash salt s username password = (s1, r)"
  shows "distinct (map u_username (users s1))"
proof (cases "succeeded r")
  case False
  with signup_result [OF assms(2)] assms(1) show ?thesis by simp
next
  case True
  then obtain name P where "username = Str name" "password = Str P"
    using assms(2)
    by (cases username; cases password)
       (auto simp: signup_def succeeded_def error_response_def)
  with signup_success [of hash salt s name P s1 r] assms(2) True
  obtain h where h: "find_user s (Str name) = None"
    "users s1 = users s @ [\<lparr>u_id = length (users s) + 1, u_username = name,
                            u_password = h, u_isAdmin = (users s = [])\<rparr>]"
    by auto
  from h(1) have "name \<notin> u_username ` set (users s)"
    by (auto simp: find_user_def find_None_iff)
  with assms(1) h(2) show ?thesis by simp
qed

lemma boot_distinct: "distinct (map u_username (users (boot hash salt U P)))"
  by (simp add: boot_def initializeAdmin_def empty_state_def split: option.splits)

text \<open>
  Two signups for the same username whose checks both run before either hash is there
  both pass the check, both answer 200, and leave the username twice in the store.
\<close>

lemma demo_twins_reached:
  "signup_check demo_boot (Str ''ann'') (Str ''x'') = None
   \<and> signup_check demo_boot (Str ''ann'') (Str ''y'') = None
   \<and> signup_resume demo_boot (Str ''ann'') (demo_hash 1 ''x'')
       = (\<lparr>users = [demo_admin,
                    \<lparr>u_id = 2, u_username = ''ann'', u_password = ''1$x'', u_isAdmin = False\<rparr>],
           categories = [], images = []\<rparr>,
          \<lparr>status = 200, body = SignupBody ''User created successfully'' False\<rparr>)
   \<and> signup_resume
         \<lparr>users = [demo_admin,
                    \<lparr>u_id = 2, u_username = ''ann'', u_password = ''1$x'', u_isAdmin = False\<rparr>],
           categories = [], images = []\<rparr>
         (Str ''ann'') (demo_hash 2 ''y'')
       = (demo_twins, \<lparr>status = 200, body = SignupBody ''User created successfully'' False\<rparr>)"
  by (simp add: signup_check_def signup_resume_def find_user_def demo_boot_eq demo_admin_def
      demo_hash_def demo_twins_def json_def decimal_digit digit_char_numerals
      digit_char_Suc_0)

text \<open>
  C3, as the code has it. For every store, a login succeeds (status 200) exactly when a
  user with the given username exists and \<open>bcrypt.compare\<close> accepts the password
  against the stored hash of the first such user, the one \<open>users.find\<close> returns; that
  user decides the answer: 200 with the session bound to the user's id, username and admin
  flag, 401 when the comparison resolves to false, 500 when it is rejected. With no such
  user the answer is 401. Where usernames are distinct, the first user with the username
  is the user with the username. After a successful signup with username \<open>name\<close> and plain
  text \<open>P\<close>, a login with \<open>name\<close> and a plain text \<open>Q\<close> succeeds exactly when
  \<open>bcrypt.compare\<close> accepts \<open>Q\<close> against the hash stored for \<open>P\<close>, and answers 401
  when it resolves to false; so the login with \<open>P\<close> succeeds for a library that verifies
  what it has hashed.
\<close>

theorem login_first_match:
  "(succeeded (snd (login compare s sess username password)) \<longleftrightarrow>
      (\<exists>i<length (users s).
          Str (u_username (users s ! i)) = username
          \<and> (\<forall>j<i. Str (u_username (users s ! j)) \<noteq> username)
          \<and> compare password (u_password (users s ! i)) = Some True))
   \<and> (i < length (users s) \<and> Str (u_username (users s ! i)) = username
        \<and> (\<forall>j<i. Str (u_username (users s ! j)) \<noteq> username) \<longrightarrow>
        login compare s sess username password =
          (if compare password (u_password (users s ! i)) = Some True
           then (sess\<lparr>sess_userId := Some (u_id (users s ! i)),
                      sess_username := Some (u_username (users s ! i)),
                      sess_isAdmin := Some (u_isAdmin (users s ! i))\<rparr>,
                 json (LoginBody ''Login successful'' (u_isAdmin (users s ! i))
                         (u_username (users s ! i))))
           else if compare password (u_password (users s ! i)) = Some False
           then (sess, error_response 401 ''Invalid credentials'')
           else (sess, error_response 500 ''Server error'')))
   \<and> ((\<forall>u\<in>set (users s). Str (u_username u) \<noteq> username) \<longrightarrow>
        login compare s sess username password
          = (sess, error_response 401 ''Invalid credentials''))
   \<and> (distinct (map u_username (users s)) \<longrightarrow>
        (succeeded (snd (login compare s sess username password)) \<longleftrightarrow>
           (\<exists>u\<in>set (users s). Str (u_username u) = username
              \<and> compare password (u_password u) = Some True)))
   \<and> (signup hash salt s (Str name) (Str P) = (s1, r) \<and> succeeded r \<longrightarrow>
        (\<exists>h. hash salt P = Some h
           \<and> (succeeded (snd (login compare s1 sess (Str name) (Str Q)))
                \<longleftrightarrow> compare (Str Q) h = Some True)
           \<and> (compare (Str Q) h = Some False \<longrightarrow>
                login compare s1 sess (Str name) (Str Q)
                  = (sess, error_response 401 ''Invalid credentials''))))
   \<and> (bcrypt_verifies hash compare \<longrightarrow>
        signup hash salt s (Str name) (Str P) = (s1, r) \<longrightarrow> succeeded r \<longrightarrow>
          succeeded (snd (login compare s1 sess (Str name) (Str P))))"
proof -
  have A: "succeeded (snd (login compare s sess username password)) \<longleftrightarrow>
      (\<exists>i<length (users s).
          Str (u_username (users s ! i)) = username
          \<and> (\<forall>j<i. Str (u_username (users s ! j)) \<noteq> username)
          \<and> compare password (u_password (users s ! i)) = Some True)"
    unfolding login_succeeded_iff find_user_index by blast
  have B: "i < length (users s) \<and> Str (u_username (users s ! i)) = username
        \<and> (\<forall>j<i. Str (u_username (users s ! j)) \<noteq> username) \<longrightarrow>
        login compare s sess username password =
          (if compare password (u_password (users s ! i)) = Some True
           then (sess\<lparr>sess_userId := Some (u_id (users s ! i)),
                      sess_username := Some (u_username (users s ! i)),
                      sess_isAdmin := Some (u_isAdmin (users s ! i))\<rparr>,
                 json (LoginBody ''Login successful'' (u_isAdmin (users s ! i))
                         (u_username (users s ! i))))
           else if compare password (u_password (users s ! i)) = Some False
           then (sess, error_response 401 ''Invalid credentials'')
           else (sess, error_response 500 ''Server error''))"
  proof
    assume "i < length (users s) \<and> Str (u_username (users s ! i)) = username
        \<and> (\<forall>j<i. Str (u_username (users s ! j)) \<noteq> username)"
    then have f: "find_user s username = Some (users s ! i)"
      by (intro find_user_first) simp_all
    show "login compare s sess username password =
          (if compare password (u_password (users s ! i)) = Some True
           then (sess\<lparr>sess_userId := Some (u_id (users s ! i)),
                      sess_username := Some (u_username (users s ! i)),
                      sess_isAdmin := Some (u_isAdmin (users s ! i))\<rparr>,
                 json (LoginBody ''Login successful'' (u_isAdmin (users s ! i))
                         (u_username (users s ! i))))
           else if compare password (u_password (users s ! i)) = Some False
           then (sess, error_response 401 ''Invalid credentials'')
           else (sess, error_response 500 ''Server error''))"
      by (cases "compare password (u_password (users s ! i))") (simp_all add: login_def f)
  qed
  have C: "(\<forall>u\<in>set (users s). Str (u_username u) \<noteq> username) \<longrightarrow>
        login compare s sess username password
          = (sess, error_response 401 ''Invalid credentials'')"
  proof
    assume "\<forall>u\<in>set (users s). Str (u_username u) \<noteq> username"
    then have "find_user s username = None"
      by (simp add: find_user_def find_None_iff)
    then show "login compare s sess username password
          = (sess, error_response 401 ''Invalid credentials'')"
      by (simp add: login_def)
  qed
  have D: "distinct (map u_username (users s)) \<longrightarrow>
      (succeeded (snd (login compare s sess username password)) \<longleftrightarrow>
         (\<exists>u\<in>set (users s). Str (u_username u) = username
            \<and> compare password (u_password u) = Some True))"
  proof (rule impI, rule iffI)
    assume "succeeded (snd (login compare s sess username password))"
    then obtain v where "find_user s username = Some v"
      "compare password (u_password v) = Some True"
      unfolding login_succeeded_iff by blast
    with find_user_Some [of s username v]
    show "\<exists>u\<in>set (users s). Str (u_username u) = username
            \<and> compare password (u_password u) = Some True"
      by blast
  next
    assume d: "distinct (map u_username (users s))"
    assume "\<exists>u\<in>set (users s). Str (u_username u) = username
            \<and> compare password (u_password u) = Some True"
    then obtain v where v: "v \<in> set (users s)" "Str (u_username v) = username"
      "compare password (u_password v) = Some True"
      by blast
    from find_user_distinct [OF d v(1)] v(2) have "find_user s username = Some v"
      by simp
    with v(3) show "succeeded (snd (login compare s sess username password))"
      unfolding login_succeeded_iff by blast
  qed
  have found: "\<exists>h. hash salt P = Some h
      \<and> find_user s1 (Str name)
          = Some \<lparr>u_id = length (users s) + 1, u_username = name, u_password = h,
                  u_isAdmin = (users s = [])\<rparr>"
    if su: "signup hash salt s (Str name) (Str P) = (s1, r)" and ok: "succeeded r"
  proof -
    from signup_success [OF su ok] obtain h where h: "hash salt P = Some h"
      "find_user s (Str name) = None"
      "users s1 = users s @ [\<lparr>u_id = length (users s) + 1, u_username = name,
                              u_password = h, u_isAdmin = (users s = [])\<rparr>]"
      by blast
    from h(2) h(3) have "find_user s1 (Str name)
          = Some \<lparr>u_id = length (users s) + 1, u_username = name, u_password = h,
                  u_isAdmin = (users s = [])\<rparr>"
      by (simp add: find_user_def find_snoc)
    with h(1) show ?thesis by blast
  qed
  have E: "signup hash salt s (Str name) (Str P) = (s1, r) \<and> succeeded r \<longrightarrow>
        (\<exists>h. hash salt P = Some h
           \<and> (succeeded (snd (login compare s1 sess (Str name) (Str Q)))
                \<longleftrightarrow> compare (Str Q) h = Some True)
           \<and> (compare (Str Q) h = Some False \<longrightarrow>
                login compare s1 sess (Str name) (Str Q)
                  = (sess, error_response 401 ''Invalid credentials'')))"
  proof
    assume "signup hash salt s (Str name) (Str P) = (s1, r) \<and> succeeded r"
    with found obtain h where h: "hash salt P = Some h"
      "find_user s1 (Str name)
          = Some \<lparr>u_id = length (users s) + 1, u_username = name, u_password = h,
                  u_isAdmin = (users s = [])\<rparr>"
      by blast
    have "succeeded (snd (login compare s1 sess (Str name) (Str Q)))
                \<longleftrightarrow> compare (Str Q) h = Some True"
      unfolding login_succeeded_iff using h(2) by simp
    moreover have "compare (Str Q) h = Some False \<longrightarrow>
                login compare s1 sess (Str name) (Str Q)
                  = (sess, error_response 401 ''Invalid credentials'')"
      using h(2) by (simp add: login_def)
    ultimately show "\<exists>h. hash salt P = Some h
           \<and> (succeeded (snd (login compare s1 sess (Str name) (Str Q)))
                \<longleftrightarrow> compare (Str Q) h = Some True)
           \<and> (compare (Str Q) h = Some False \<longrightarrow>
                login compare s1 sess (Str name) (Str Q)
                  = (sess, error_response 401 ''Invalid credentials''))"
      using h(1) by blast
  qed
  have F: "bcrypt_verifies hash compare \<longrightarrow>
        signup hash salt s (Str name) (Str P) = (s1, r) \<longrightarrow> succeeded r \<longrightarrow>
          succeeded (snd (login compare s1 sess (Str name) (Str P)))"
  proof (intro impI)
    assume v: "bcrypt_verifies hash compare"
      and su: "signup hash salt s (Str name) (Str P) = (s1, r)" and ok: "succeeded r"
    from found [OF su ok] obtain h where h: "hash salt P = Some h"
      "find_user s1 (Str name)
          = Some \<lparr>u_id = length (users s) + 1, u_username = name, u_password = h,
                  u_isAdmin = (users s = [])\<rparr>"
      by blast
    from v h(1) have "compare (Str P) h = Some True"
      by (simp add: bcrypt_verifies_def)
    then show "succeeded (snd (login compare s1 sess (Str name) (Str P)))"
      unfolding login_succeeded_iff using h(2) by simp
  qed
  show ?thesis
    by (rule conjI [OF A conjI [OF B conjI [OF C conjI [OF D conjI [OF E F]]]]])
qed

lemma demo_signup_bob:
  "signup demo_hash 3 demo_boot (Str ''bob'') (Str ''y'')
     = (\<lparr>users = [demo_admin, demo_bob 2], categories = [], images = []\<rparr>,
        \<lparr>status = 200, body = SignupBody ''User created successfully'' False\<rparr>)"
  by (simp add: demo_eval demo_boot_eq)

lemma demo_twins_users:
  "users demo_twins
     = [demo_admin,
        \<lparr>u_id = 2, u_username = ''ann'', u_password = ''1$x'', u_isAdmin = False\<rparr>,
        \<lparr>u_id = 3, u_username = ''ann'', u_password = ''2$y'', u_isAdmin = False\<rparr>]"
  by (simp add: demo_twins_def)

theorem login_first_match_witness:
  "1 < length (users demo_twins) \<and> Str (u_username (users demo_twins ! 1)) = Str ''ann''
   \<and> Str (u_username (users demo_twins ! 0)) \<noteq> Str ''ann''
   \<and> demo_compare (Str ''x'') (u_password (users demo_twins ! 1)) = Some True
   \<and> demo_compare (Str ''y'') (u_password (users demo_twins ! 1)) = Some False
   \<and> login demo_compare demo_twins anonymous (Str ''ann'') (Str ''x'')
       = (\<lparr>sess_userId = Some 2, sess_username = Some ''ann'', sess_isAdmin = Some False\<rparr>,
          \<lparr>status = 200, body = LoginBody ''Login successful'' False ''ann''\<rparr>)
   \<and> login demo_compare demo_twins anonymous (Str ''ann'') (Str ''y'')
       = (anonymous, \<lparr>status = 401, body = ErrorBody ''Invalid credentials''\<rparr>)
   \<and> login demo_compare demo_twins anonymous (Str ''ann'') Undefined
       = (anonymous, \<lparr>status = 500, body = ErrorBody ''Server error''\<rparr>)
   \<and> Str (u_username demo_admin) \<noteq> Str ''zoe''
   \<and> login demo_compare demo_boot anonymous (Str ''zoe'') (Str ''x'')
       = (anonymous, \<lparr>status = 401, body = ErrorBody ''Invalid credentials''\<rparr>)
   \<and> distinct (map u_username (users demo_boot))
   \<and> demo_admin \<in> set (users demo_boot)
   \<and> demo_compare (Str ''admin123'') (u_password demo_admin) = Some True
   \<and> succeeded (snd (login demo_compare demo_boot anonymous (Str ''admin'') (Str ''admin123'')))
   \<and> signup demo_hash 3 demo_boot (Str ''bob'') (Str ''y'')
       = (\<lparr>users = [demo_admin, demo_bob 2], categories = [], images = []\<rparr>,
          \<lparr>status = 200, body = SignupBody ''User created successfully'' False\<rparr>)
   \<and> succeeded \<lparr>status = 200, body = SignupBody ''User created successfully'' False\<rparr>
   \<and> bcrypt_verifies demo_hash demo_compare
   \<and> demo_compare (Str ''z'') ''3$y'' = Some False
   \<and> succeeded (snd (login demo_compare
         \<lparr>users = [demo_admin, demo_bob 2], categories = [], images = []\<rparr>
         anonymous (Str ''bob'') (Str ''y'')))
   \<and> login demo_compare
         \<lparr>users = [demo_admin, demo_bob 2], categories = [], images = []\<rparr>
         anonymous (Str ''bob'') (Str ''z'')
       = (anonymous, \<lparr>status = 401, body = ErrorBody ''Invalid credentials''\<rparr>)"
proof -
  note tw = demo_twins_users
  let ?s1 = "\<lparr>users = [demo_admin, demo_bob 2], categories = [], images = []\<rparr>"
  let ?r = "\<lparr>status = 200, body = SignupBody ''User created successfully'' False\<rparr>"
  have idx: "1 < length (users demo_twins) \<and> Str (u_username (users demo_twins ! 1)) = Str ''ann''
      \<and> (\<forall>j<1. Str (u_username (users demo_twins ! j)) \<noteq> Str ''ann'')"
    by (simp add: tw demo_admin_def)
  have cmp: "demo_compare (Str ''x'') (u_password (users demo_twins ! 1)) = Some True"
    "demo_compare (Str ''y'') (u_password (users demo_twins ! 1)) = Some False"
    "demo_compare Undefined (u_password (users demo_twins ! 1)) = None"
    "demo_compare (Str ''admin123'') (u_password demo_admin) = Some True"
    "demo_compare (Str ''z'') ''3$y'' = Some False"
    by (simp_all add: tw demo_compare_def demo_admin_def)
  note t1 = login_first_match [where s = demo_twins and compare = demo_compare
      and sess = anonymous and username = "Str ''ann''" and i = 1]
  have a: "login demo_compare demo_twins anonymous (Str ''ann'') (Str ''x'')
      = (anonymous\<lparr>sess_userId := Some (u_id (users demo_twins ! 1)),
                   sess_username := Some (u_username (users demo_twins ! 1)),
                   sess_isAdmin := Some (u_isAdmin (users demo_twins ! 1))\<rparr>,
         json (LoginBody ''Login successful'' (u_isAdmin (users demo_twins ! 1))
                 (u_username (users demo_twins ! 1))))"
    using t1 [where password = "Str ''x''"] idx cmp(1) by simp
  have b: "login demo_compare demo_twins anonymous (Str ''ann'') (Str ''y'')
      = (anonymous, error_response 401 ''Invalid credentials'')"
    using t1 [where password = "Str ''y''"] idx cmp(2) by simp
  have c: "login demo_compare demo_twins anonymous (Str ''ann'') Undefined
      = (anonymous, error_response 500 ''Server error'')"
    using t1 [where password = Undefined] idx cmp(3) by simp
  have nz: "\<forall>u\<in>set (users demo_boot). Str (u_username u) \<noteq> Str ''zoe''"
    by (simp add: demo_boot_eq demo_admin_def)
  note t2 = login_first_match [where s = demo_boot and compare = demo_compare
      and sess = anonymous and hash = demo_hash and salt = 3 and name = "''bob''"
      and P = "''y''" and ?s1.0 = ?s1 and r = ?r]
  have d: "login demo_compare demo_boot anonymous (Str ''zoe'') (Str ''x'')
      = (anonymous, error_response 401 ''Invalid credentials'')"
    using t2 [where username = "Str ''zoe''" and password = "Str ''x''"] nz by blast
  have dist: "distinct (map u_username (users demo_boot))"
    "demo_admin \<in> set (users demo_boot)" "Str (u_username demo_admin) = Str ''admin''"
    by (simp_all add: demo_boot_eq demo_admin_def)
  have e: "succeeded (snd (login demo_compare demo_boot anonymous (Str ''admin'')
      (Str ''admin123'')))"
    using t2 [where username = "Str ''admin''" and password = "Str ''admin123''"] dist cmp(4)
    by blast
  have ok: "succeeded ?r"
    by (simp add: succeeded_def)
  have h: "demo_hash 3 ''y'' = Some ''3$y''"
    by (simp add: demo_hash_def decimal_digit digit_char_numerals)
  have f: "succeeded (snd (login demo_compare ?s1 anonymous (Str ''bob'') (Str ''y'')))"
    using t2 demo_verifies demo_signup_bob ok by blast
  have g: "login demo_compare ?s1 anonymous (Str ''bob'') (Str ''z'')
      = (anonymous, error_response 401 ''Invalid credentials'')"
    using t2 [where Q = "''z''"] demo_signup_bob ok h cmp(5) by auto
  from a b c d e f g idx cmp dist ok demo_verifies demo_signup_bob show ?thesis
    by (simp add: tw anonymous_def json_def error_response_def demo_admin_def)
qed

text \<open>
  C3, as stated, fails twice. In the store with two users named \<open>ann\<close> a user with that
  username exists whose stored hash the password \<open>y\<close> matches, and the login answers
  401, because the first \<open>ann\<close> is the one compared. And with a library that, like
  bcrypt, reads the first 72 characters only, a login with another plain text than the
  one signed up with succeeds.
\<close>

theorem login_any_user_counterexample:
  "u_username (users demo_twins ! 2) = ''ann''
   \<and> demo_compare (Str ''y'') (u_password (users demo_twins ! 2)) = Some True
   \<and> login demo_compare demo_twins anonymous (Str ''ann'') (Str ''y'')
       = (anonymous, \<lparr>status = 401, body = ErrorBody ''Invalid credentials''\<rparr>)
   \<and> status (snd (signup bcrypt72_hash 4 demo_boot (Str ''zed'') (Str long_plain))) = 200
   \<and> long_other \<noteq> long_plain
   \<and> status (snd (login bcrypt72_compare
         (fst (signup bcrypt72_hash 4 demo_boot (Str ''zed'') (Str long_plain)))
         anonymous (Str ''zed'') (Str long_other))) = 200"
proof -
  have a: "u_username (users demo_twins ! 2) = ''ann''"
    "demo_compare (Str ''y'') (u_password (users demo_twins ! 2)) = Some True"
    by (simp_all add: demo_twins_users demo_compare_def)
  have b: "login demo_compare demo_twins anonymous (Str ''ann'') (Str ''y'')
       = (anonymous, \<lparr>status = 401, body = ErrorBody ''Invalid credentials''\<rparr>)"
    by (simp add: login_def find_user_def demo_twins_users demo_admin_def demo_compare_def
        error_response_def)
  have t: "take 72 long_plain = replicate 72 (CHR ''a'')"
    "take 72 long_other = replicate 72 (CHR ''a'')"
    by (simp_all add: long_plain_def long_other_def)
  have ne: "long_other \<noteq> long_plain" "long_plain \<noteq> []"
    by (simp_all add: long_plain_def long_other_def)
  have su: "signup bcrypt72_hash 4 demo_boot (Str ''zed'') (Str long_plain)
      = (\<lparr>users = [demo_admin,
                    \<lparr>u_id = 2, u_username = ''zed'',
                      u_password = ''4$'' @ replicate 72 (CHR ''a''), u_isAdmin = False\<rparr>],
           categories = [], images = []\<rparr>,
         \<lparr>status = 200, body = SignupBody ''User created successfully'' False\<rparr>)"
    using ne(2)
    by (simp add: signup_def find_user_def demo_boot_eq demo_admin_def bcrypt72_hash_def t
        decimal_digit digit_char_numerals json_def)
  have lo: "status (snd (login bcrypt72_compare
         \<lparr>users = [demo_admin,
                    \<lparr>u_id = 2, u_username = ''zed'',
                      u_password = ''4$'' @ replicate 72 (CHR ''a''), u_isAdmin = False\<rparr>],
           categories = [], images = []\<rparr>
         anonymous (Str ''zed'') (Str long_other))) = 200"
    by (simp add: login_def find_user_def demo_admin_def bcrypt72_compare_def t json_def)
  from a b ne(1) lo show ?thesis
    by (simp add: su)
qed

section \<open>Login failures\<close>

text \<open>The two explicit failure branches of the login handler end the same way: an unknown
  username, and a password for which \<open>bcrypt.compare\<close> resolves to false.\<close>

lemma login_explicit_failures:
  assumes "find_user s u1 = None"
    and "find_user s u2 = Some user"
    and "compare p2 (u_password user) = Some False"
  shows "login compare s sess u1 p1 = (sess, error_response 401 ''Invalid credentials'')
       \<and> login compare s sess u2 p2 = (sess, error_response 401 ''Invalid credentials'')"
  using assms by (simp add: login_def)

text \<open>When \<open>bcrypt.compare\<close> is rejected for the password, which only happens once a user
  was found, the handler's \<open>catch\<close> answers 500; the same password with an unknown
  username answers 401.\<close>

lemma login_rejected_compare:
  assumes "find_user s u1 = None"
    and "find_user s u2 = Some user"
    and "compare p (u_password user) = None"
  shows "login compare s sess u1 p = (sess, error_response 401 ''Invalid credentials'')
       \<and> login compare s sess u2 p = (sess, error_response 500 ''Server error'')"
  using assms by (simp add: login_def)

text \<open>
  C4 does not hold of the code. Two failing logins after start-up, both without a
  password: for the unknown username \<open>nobody\<close> the answer is 401 with
  \<open>{ error: 'Invalid credentials' }\<close>, for the known username \<open>admin\<close> it is 500 with
  \<open>{ error: 'Server error' }\<close>. The two responses differ, so they tell whether the
  username exists.
\<close>

theorem login_missing_password_reveals_user:
  "login demo_compare (boot demo_hash 7 Undefined Undefined) anonymous (Str ''nobody'') Undefined
     = (anonymous, \<lparr>status = 401, body = ErrorBody ''Invalid credentials''\<rparr>)
   \<and> login demo_compare (boot demo_hash 7 Undefined Undefined) anonymous (Str ''admin'') Undefined
     = (anonymous, \<lparr>status = 500, body = ErrorBody ''Server error''\<rparr>)"
proof -
  have a: "find_user demo_boot (Str ''nobody'') = None"
    by (simp add: find_user_def demo_boot_eq demo_admin_def)
  have b: "find_user demo_boot (Str ''admin'') = Some demo_admin"
    by (simp add: find_user_def demo_boot_eq demo_admin_def)
  have c: "demo_compare Undefined (u_password demo_admin) = None"
    by (simp add: demo_compare_def)
  from login_rejected_compare [where s = demo_boot and ?u1.0 = "Str ''nobody''"
      and ?u2.0 = "Str ''admin''" and user = demo_admin and compare = demo_compare
      and p = Undefined and sess = anonymous] a b c
  show ?thesis
    by (simp add: error_response_def demo_boot_def)
qed

section \<open>Creating categories\<close>

text \<open>
  C5. For an administrator and any registry, creating a category with an absent or empty
  name answers 400 and leaves the state as it was; with a non-empty name it answers 200
  with the new category, appended to the registry, whose id is the number of categories
  before the call plus one.
\<close>

theorem create_category_id:
  assumes "isAdmin sess"
  shows "create_category s sess Undefined now
           = (s, error_response 400 ''Category name required'')
       \<and> create_category s sess (Str []) now
           = (s, error_response 400 ''Category name required'')
       \<and> (n \<noteq> [] \<longrightarrow>
            create_category s sess (Str n) now =
              (s\<lparr>categories := categories s @
                   [\<lparr>c_id = length (categories s) + 1, c_name = n, c_createdAt = now\<rparr>]\<rparr>,
               json (CategoryBody
                 \<lparr>c_id = length (categories s) + 1, c_name = n, c_createdAt = now\<rparr>)))"
  using assms by (simp add: create_category_def Let_def)

theorem create_category_id_witness:
  "isAdmin admin_session \<and> ''cats'' \<noteq> []
   \<and> create_category empty_state admin_session (Str []) 5
       = (empty_state, error_response 400 ''Category name required'')
   \<and> create_category empty_state admin_session (Str ''cats'') 5 =
       (\<lparr>users = [], categories = [\<lparr>c_id = 1, c_name = ''cats'', c_createdAt = 5\<rparr>],
         images = []\<rparr>,
        \<lparr>status = 200, body = CategoryBody \<lparr>c_id = 1, c_name = ''cats'', c_createdAt = 5\<rparr>\<rparr>)"
  using create_category_id [OF isAdmin_admin_session, of empty_state 5 "''cats''"]
  by (simp add: isAdmin_admin_session empty_state_def json_def)

section \<open>The admin guard\<close>

text \<open>
  C9. When the session has no user id (anonymous) or its admin flag is not true, category
  creation, upload, download and image deletion, in both server variants, answer 403 with
  \<open>{ error: 'Admin access required' }\<close>, which is among 401 and 403 and is not 200; the
  state is returned as it was and no storage call is made.
\<close>

theorem guards_refuse:
  assumes "sess_userId sess = None \<or> sess_isAdmin sess \<noteq> Some True"
  shows "create_category s sess name now = (s, error_response 403 ''Admin access required'')
       \<and> upload_local s sess files categoryId t uploadedAt err
           = (s, error_response 403 ''Admin access required'', [])
       \<and> upload_cloud s sess files categoryId uploadedAt result
           = (s, error_response 403 ''Admin access required'', [])
       \<and> download_local s sess id_param outcome = error_response 403 ''Admin access required''
       \<and> download_cloud s sess id_param = error_response 403 ''Admin access required''
       \<and> delete_local s sess id_param removed
           = (s, error_response 403 ''Admin access required'', [])
       \<and> delete_cloud s sess id_param removed
           = (s, error_response 403 ''Admin access required'', [])
       \<and> status (error_response 403 ''Admin access required'') \<in> {401, 403}
       \<and> status (error_response 403 ''Admin access required'') \<noteq> 200"
proof -
  from assms have "\<not> isAdmin sess"
    by (auto simp: isAdmin_def)
  then show ?thesis
    by (simp add: create_category_def upload_local_def upload_cloud_def download_local_def
        download_cloud_def delete_local_def delete_cloud_def error_response_def)
qed

theorem guards_refuse_witness:
  "(sess_userId anonymous = None \<or> sess_isAdmin anonymous \<noteq> Some True)
   \<and> (sess_userId member_session = None \<or> sess_isAdmin member_session \<noteq> Some True)
   \<and> delete_local empty_state anonymous ''1'' True
       = (empty_state, \<lparr>status = 403, body = ErrorBody ''Admin access required''\<rparr>, [])
   \<and> create_category empty_state member_session (Str ''cats'') 5
       = (empty_state, \<lparr>status = 403, body = ErrorBody ''Admin access required''\<rparr>)"
  using guards_refuse [where sess = anonymous and s = empty_state and id_param = "''1''"
      and removed = True]
    guards_refuse [where sess = member_session and s = empty_state and name = "Str ''cats''"
      and now = 5]
  by (simp add: anonymous_def member_session_def error_response_def)

section \<open>Parsing decimal numbers\<close>

lemma bitlen_le: "n < 2 ^ k \<Longrightarrow> bitlen n \<le> k"
proof (induction n arbitrary: k rule: bitlen.induct)
  case (1 n)
  show ?case
  proof (cases "n = 0")
    case True
    then show ?thesis by (simp add: bitlen.simps)
  next
    case False
    with "1.prems" obtain j where j: "k = Suc j"
      by (cases k) auto
    with "1.prems" have "n div 2 < 2 ^ j" by auto
    from "1.IH" [OF False this] False j show ?thesis
      by (simp add: bitlen.simps [of n])
  qed
qed

lemma round_double_small: "n < 2 ^ 53 \<Longrightarrow> round_double n = Some n"
  using bitlen_le [of n 53] by (simp add: round_double_def)

lemma to_number_small: "n < 2 ^ 53 \<Longrightarrow> to_number False n = Num (int n)"
  by (simp add: to_number_def round_double_small)

lemma digit_char_props:
  assumes "d < 10"
  shows "is_digit_in 10 (digit_char d)" "digit_val (digit_char d) = d"
    "\<not> is_ws (digit_char d)" "digit_char d \<noteq> CHR ''+''" "digit_char d \<noteq> CHR ''-''"
    "digit_char d \<noteq> CHR ''x''" "digit_char d \<noteq> CHR ''X''"
proof -
  note dd = digit_of_digit_char [OF assms]
  show "is_digit_in 10 (digit_char d)" "digit_val (digit_char d) = d"
    using assms by (simp_all add: is_digit_in_def digit_val_def dd)
  show "\<not> is_ws (digit_char d)"
    using assms by (simp add: is_ws_def digit_char_def)
  have n: "digit_of c = None \<Longrightarrow> digit_char d \<noteq> c" for c
    using dd by auto
  show "digit_char d \<noteq> CHR ''+''" "digit_char d \<noteq> CHR ''-''"
    by (rule n, simp add: digit_of_def)+
  have "is_digit_in 10 c = False \<Longrightarrow> digit_char d \<noteq> c" for c
    using \<open>is_digit_in 10 (digit_char d)\<close> by auto
  then show "digit_char d \<noteq> CHR ''x''" "digit_char d \<noteq> CHR ''X''"
    by (simp_all add: is_digit_in_def digit_of_def)
qed

lemma decimal_chars: "c \<in> set (decimal n) \<Longrightarrow> \<exists>d<10. c = digit_char d"
proof (induction n arbitrary: c rule: decimal.induct)
  case (1 n)
  show ?case
  proof (cases "n < 10")
    case True
    with "1.prems" show ?thesis by (auto simp: decimal_digit)
  next
    case False
    with "1.prems" have "c \<in> set (decimal (n div 10)) \<or> c = digit_char (n mod 10)"
      by (subst (asm) decimal.simps) auto
    then show ?thesis
    proof
      assume "c \<in> set (decimal (n div 10))"
      from "1.IH" [OF False this] show ?thesis .
    next
      assume "c = digit_char (n mod 10)"
      moreover have "n mod 10 < 10" by simp
      ultimately show ?thesis by blast
    qed
  qed
qed

lemma decimal_nonempty: "decimal n \<noteq> []"
  by (subst decimal.simps) simp

lemma radix_value_snoc: "radix_value R (Z @ [c]) = radix_value R Z * R + digit_val c"
  by (simp add: radix_value_def)

lemma radix_value_decimal: "radix_value 10 (decimal n) = n"
proof (induction n rule: decimal.induct)
  case (1 n)
  show ?case
  proof (cases "n < 10")
    case True
    then show ?thesis
      by (simp add: decimal_digit radix_value_def digit_char_props)
  next
    case False
    have m: "n mod 10 < 10" by simp
    from "1.IH" [OF False] False show ?thesis
      by (subst decimal.simps) (simp add: radix_value_snoc digit_char_props [OF m])
  qed
qed

lemma parseInt_plain:
  assumes "S \<noteq> []" and "\<not> is_ws (hd S)" and "hd S \<noteq> CHR ''+''" and "hd S \<noteq> CHR ''-''"
    and "\<not> (take 2 S = ''0x'' \<or> take 2 S = ''0X'')"
    and "takeWhile (is_digit_in 10) S = S"
  shows "parseInt (Str S) = to_number False (radix_value 10 S)"
proof -
  have ws: "dropWhile is_ws S = S"
    using assms(1,2) by (cases S) auto
  show ?thesis
    unfolding parseInt_def Let_def ToString.simps ws
    using assms(1,3,4,5) by (simp add: assms(6))
qed

lemma parseInt_decimal:
  assumes "n < 2 ^ 53"
  shows "parseInt (Str (decimal n)) = Num (int n)"
proof -
  have all: "\<exists>d<10. x = digit_char d" if "x \<in> set (decimal n)" for x
    using that by (rule decimal_chars)
  have ne: "decimal n \<noteq> []"
    by (rule decimal_nonempty)
  then have "hd (decimal n) \<in> set (decimal n)"
    by simp
  from all [OF this] obtain d where d: "d < 10" "hd (decimal n) = digit_char d"
    by auto
  have first: "\<not> is_ws (hd (decimal n))" "hd (decimal n) \<noteq> CHR ''+''"
    "hd (decimal n) \<noteq> CHR ''-''"
    using d digit_char_props [OF d(1)] by simp_all
  have nohex: "take 2 (decimal n) \<noteq> [a, b]" if "b = CHR ''x'' \<or> b = CHR ''X''" for a b
  proof
    assume "take 2 (decimal n) = [a, b]"
    then have "b \<in> set (take 2 (decimal n))" by simp
    then have "b \<in> set (decimal n)" by (rule in_set_takeD)
    from all [OF this] obtain e where "e < 10" "b = digit_char e" by auto
    with digit_char_props [of e] that show False by auto
  qed
  have hex: "\<not> (take 2 (decimal n) = ''0x'' \<or> take 2 (decimal n) = ''0X'')"
    using nohex by blast
  have digits: "takeWhile (is_digit_in 10) (decimal n) = decimal n"
  proof -
    have "is_digit_in 10 x" if "x \<in> set (decimal n)" for x
      using all [OF that] digit_char_props(1) by auto
    then show ?thesis by (simp add: takeWhile_eq_all_conv)
  qed
  from parseInt_plain [OF ne first hex digits] radix_value_decimal [of n]
    to_number_small [OF assms]
  show ?thesis by simp
qed

lemma parse_12abc: "parseInt (Str ''12abc'') = Num 12"
  by code_simp

lemma parse_12: "parseInt (Str ''12'') = Num 12"
  by code_simp

lemma not_begins_parse:
  assumes "\<not> begins_with_digit str"
  shows "parseInt (Str str) = NaN"
proof -
  define S0 where "S0 = dropWhile is_ws str"
  define S1 where
    "S1 = (if S0 \<noteq> [] \<and> (hd S0 = CHR ''+'' \<or> hd S0 = CHR ''-'') then tl S0 else S0)"
  have "\<not> (S1 \<noteq> [] \<and> is_digit_in 10 (hd S1))"
    unfolding S1_def S0_def by (rule assms [unfolded begins_with_digit_def Let_def])
  then have nd: "S1 = [] \<or> \<not> is_digit_in 10 (hd S1)"
    by blast
  have zero: "is_digit_in 10 CHR ''0''"
    by (simp add: is_digit_in_def digit_of_def)
  have nohex: "\<not> (take 2 S1 = ''0x'' \<or> take 2 S1 = ''0X'')"
  proof (cases S1)
    case Nil
    then show ?thesis by simp
  next
    case (Cons c cs)
    with nd have "c \<noteq> CHR ''0''"
      using zero by auto
    with Cons show ?thesis by (auto simp: take_Suc_conv_app_nth)
  qed
  have Z: "takeWhile (is_digit_in 10) S1 = []"
    using nd by (cases S1) auto
  show ?thesis
    unfolding parseInt_def Let_def ToString.simps
    unfolding S0_def [symmetric] S1_def [symmetric]
    using nohex Z by simp
qed

lemma abc_no_digit: "\<not> begins_with_digit ''abc''"
  by code_simp

lemma parse_Undefined: "parseInt Undefined = NaN"
  by code_simp




section \<open>Listing images\<close>

text \<open>
  C6. Without a \<open>categoryId\<close> query parameter, or with an empty one, the listing answers
  200 with all images in their stored (insertion) order. With a non-empty parameter it
  answers 200 with the images whose category id is strictly equal to the parsed
  parameter, in the same order; for a category id \<open>K\<close> written in decimal these are
  exactly the images whose \<open>categoryId\<close> is \<open>K\<close>, and when there is none the answer
  is still 200, with the empty sequence.
\<close>

theorem list_images_filter:
  "list_images s Undefined = json (ImagesBody (images s))
   \<and> list_images s (Str []) = json (ImagesBody (images s))
   \<and> (q \<noteq> [] \<longrightarrow>
        list_images s (Str q) =
          json (ImagesBody
            (filter (\<lambda>img. strict_eq (i_categoryId img) (parseInt (Str q))) (images s))))
   \<and> (K < 2 ^ 53 \<longrightarrow>
        list_images s (Str (decimal K)) =
          json (ImagesBody (filter (\<lambda>img. i_categoryId img = Num (int K)) (images s))))
   \<and> (K < 2 ^ 53 \<longrightarrow> (\<forall>img\<in>set (images s). i_categoryId img \<noteq> Num (int K)) \<longrightarrow>
        list_images s (Str (decimal K)) = json (ImagesBody []))"
proof -
  have eq: "strict_eq c (Num k) \<longleftrightarrow> c = Num k" for c k
    by (auto simp: strict_eq_def)
  have K: "K < 2 ^ 53 \<Longrightarrow>
      list_images s (Str (decimal K)) =
        json (ImagesBody (filter (\<lambda>img. i_categoryId img = Num (int K)) (images s)))"
    by (simp add: list_images_def decimal_nonempty parseInt_decimal eq)
  have none: "(\<forall>img\<in>set (images s). i_categoryId img \<noteq> Num (int K)) \<Longrightarrow>
      filter (\<lambda>img. i_categoryId img = Num (int K)) (images s) = []"
    by (simp add: filter_empty_conv)
  show ?thesis
    using K none by (simp add: list_images_def)
qed

lemma decimal_2: "decimal 2 = ''2''" and decimal_3: "decimal 3 = ''3''"
  and decimal_5: "decimal 5 = ''5''"
  by (simp_all add: decimal_digit digit_char_numerals)

lemma small_ids: "(2::nat) < 2 ^ 53" "(3::nat) < 2 ^ 53" "(5::nat) < 2 ^ 53"
  by simp_all

theorem list_images_filter_witness:
  "''2'' \<noteq> [] \<and> (2::nat) < 2 ^ 53 \<and> (5::nat) < 2 ^ 53
   \<and> i_categoryId (demo_image 1 (Num 2)) \<noteq> Num 5 \<and> i_categoryId (demo_image 2 NaN) \<noteq> Num 5
   \<and> i_categoryId (demo_image 3 (Num 2)) \<noteq> Num 5
   \<and> i_categoryId (demo_image 4 (Num 7)) \<noteq> Num 5
   \<and> list_images demo_gallery (Str ''2'')
       = \<lparr>status = 200, body = ImagesBody [demo_image 1 (Num 2), demo_image 3 (Num 2)]\<rparr>
   \<and> list_images demo_gallery (Str ''5'') = \<lparr>status = 200, body = ImagesBody []\<rparr>
   \<and> list_images demo_gallery Undefined = \<lparr>status = 200, body = ImagesBody (images demo_gallery)\<rparr>"
proof -
  have c: "i_categoryId (demo_image n cat) = cat" for n cat
    by (simp add: demo_image_def)
  have g: "images demo_gallery
      = [demo_image 1 (Num 2), demo_image 2 NaN, demo_image 3 (Num 2), demo_image 4 (Num 7)]"
    by (simp add: demo_gallery_def)
  have a: "list_images demo_gallery (Str (decimal 2)) =
      json (ImagesBody (filter (\<lambda>img. i_categoryId img = Num (int 2)) (images demo_gallery)))"
    using list_images_filter [of demo_gallery "''2''" 2] small_ids by blast
  have b: "list_images demo_gallery (Str (decimal 5)) =
      json (ImagesBody (filter (\<lambda>img. i_categoryId img = Num (int 5)) (images demo_gallery)))"
    using list_images_filter [of demo_gallery "''5''" 5] small_ids by blast
  have u: "list_images demo_gallery Undefined = json (ImagesBody (images demo_gallery))"
    using list_images_filter [of demo_gallery "''5''" 5] by blast
  from a b u show ?thesis
    by (simp add: decimal_2 decimal_5 c g json_def)
qed

section \<open>Deleting images\<close>


lemma demo_gallery_images:
  "images demo_gallery
     = [demo_image 1 (Num 2), demo_image 2 NaN, demo_image 3 (Num 2), demo_image 4 (Num 7)]"
  by (simp add: demo_gallery_def)


section \<open>Uploading images\<close>

text \<open>
  C8. For an administrator, in both server variants: a file whose MIME type is not in the
  variant's allow-list is refused with 400, the state as it was and no storage call made;
  when the storage call fails the answer is 500 and the state is as it was; the list of
  images changes only if the storage call succeeded for a file of an allowed type, and
  then it does change.
\<close>

theorem upload_all_or_nothing:
  assumes "isAdmin sess"
  shows "(f_mimetype upl \<notin> set allowedTypes_local \<longrightarrow>
            upload_local s sess (Some upl) categoryId now uploadedAt err
              = (s, error_response 400 ''Only image files allowed'', []))
       \<and> (f_mimetype upl \<notin> set allowedTypes_cloud \<longrightarrow>
            upload_cloud s sess (Some upl) categoryId uploadedAt result
              = (s, error_response 400 ''Only image files allowed'', []))
       \<and> (f_mimetype upl \<in> set allowedTypes_local \<longrightarrow>
            upload_local s sess (Some upl) categoryId now uploadedAt True
              = (s, error_response 500 ''Failed to upload image'',
                 [Mv (decimal now @ ''-'' @ replace_ws (f_name upl))]))
       \<and> (f_mimetype upl \<in> set allowedTypes_cloud \<longrightarrow>
            upload_cloud s sess (Some upl) categoryId uploadedAt None
              = (s, error_response 500 ''Failed to upload image to Cloudinary'',
                 [UploadStream (f_data upl)]))
       \<and> (images (fst (upload_local s sess files categoryId now uploadedAt err)) \<noteq> images s \<longrightarrow>
            \<not> err
            \<and> (\<exists>upl'. files = Some upl' \<and> f_mimetype upl' \<in> set allowedTypes_local
                  \<and> snd (snd (upload_local s sess files categoryId now uploadedAt err))
                        = [Mv (decimal now @ ''-'' @ replace_ws (f_name upl'))]))
       \<and> (images (fst (upload_cloud s sess files categoryId uploadedAt result)) \<noteq> images s \<longrightarrow>
            result \<noteq> None
            \<and> (\<exists>upl'. files = Some upl' \<and> f_mimetype upl' \<in> set allowedTypes_cloud
                  \<and> snd (snd (upload_cloud s sess files categoryId uploadedAt result))
                        = [UploadStream (f_data upl')]))
       \<and> (f_mimetype upl \<in> set allowedTypes_local \<longrightarrow>
            images (fst (upload_local s sess (Some upl) categoryId now uploadedAt False))
              \<noteq> images s)
       \<and> (f_mimetype upl \<in> set allowedTypes_cloud \<longrightarrow>
            images (fst (upload_cloud s sess (Some upl) categoryId uploadedAt (Some res)))
              \<noteq> images s)"
proof -
  have A: "f_mimetype upl \<notin> set allowedTypes_local \<longrightarrow>
            upload_local s sess (Some upl) categoryId now uploadedAt err
              = (s, error_response 400 ''Only image files allowed'', [])"
    using assms by (simp add: upload_local_def)
  have B: "f_mimetype upl \<notin> set allowedTypes_cloud \<longrightarrow>
            upload_cloud s sess (Some upl) categoryId uploadedAt result
              = (s, error_response 400 ''Only image files allowed'', [])"
    using assms by (simp add: upload_cloud_def)
  have C: "f_mimetype upl \<in> set allowedTypes_local \<longrightarrow>
            upload_local s sess (Some upl) categoryId now uploadedAt True
              = (s, error_response 500 ''Failed to upload image'',
                 [Mv (decimal now @ ''-'' @ replace_ws (f_name upl))])"
    using assms by (simp add: upload_local_def Let_def)
  have D: "f_mimetype upl \<in> set allowedTypes_cloud \<longrightarrow>
            upload_cloud s sess (Some upl) categoryId uploadedAt None
              = (s, error_response 500 ''Failed to upload image to Cloudinary'',
                 [UploadStream (f_data upl)])"
    using assms by (simp add: upload_cloud_def)
  have E: "images (fst (upload_local s sess files categoryId now uploadedAt err)) \<noteq> images s \<longrightarrow>
            \<not> err
            \<and> (\<exists>upl'. files = Some upl' \<and> f_mimetype upl' \<in> set allowedTypes_local
                  \<and> snd (snd (upload_local s sess files categoryId now uploadedAt err))
                        = [Mv (decimal now @ ''-'' @ replace_ws (f_name upl'))])"
    by (auto simp: upload_local_def Let_def split: option.splits if_splits)
  have F: "images (fst (upload_cloud s sess files categoryId uploadedAt result)) \<noteq> images s \<longrightarrow>
            result \<noteq> None
            \<and> (\<exists>upl'. files = Some upl' \<and> f_mimetype upl' \<in> set allowedTypes_cloud
                  \<and> snd (snd (upload_cloud s sess files categoryId uploadedAt result))
                        = [UploadStream (f_data upl')])"
    by (auto simp: upload_cloud_def Let_def split: option.splits if_splits)
  have G: "f_mimetype upl \<in> set allowedTypes_local \<longrightarrow>
            images (fst (upload_local s sess (Some upl) categoryId now uploadedAt False))
              \<noteq> images s"
    using assms by (simp add: upload_local_def Let_def)
  have H: "f_mimetype upl \<in> set allowedTypes_cloud \<longrightarrow>
            images (fst (upload_cloud s sess (Some upl) categoryId uploadedAt (Some res)))
              \<noteq> images s"
    using assms by (simp add: upload_cloud_def Let_def)
  show ?thesis
    by (rule conjI [OF A conjI [OF B conjI [OF C conjI [OF D conjI [OF E conjI [OF F
          conjI [OF G H]]]]]]])
qed

lemma demo_file_fields:
  "f_name demo_file = ''my cat.png''" "f_data demo_file = ''PNG''"
  "replace_ws ''my cat.png'' = ''my-cat.png''"
  by (simp_all add: demo_file_def replace_ws_def is_ws_def)

lemma admin_session_username: "sess_username admin_session = Some ''admin''"
  by (simp add: admin_session_def)

lemma demo_mimetypes:
  "f_mimetype demo_text \<notin> set allowedTypes_local" "f_mimetype demo_text \<notin> set allowedTypes_cloud"
  "f_mimetype demo_file \<in> set allowedTypes_local" "f_mimetype demo_file \<in> set allowedTypes_cloud"
  by (simp_all add: demo_text_def demo_file_def allowedTypes_local_def allowedTypes_cloud_def)

theorem upload_all_or_nothing_witness:
  "isAdmin admin_session
   \<and> f_mimetype demo_text \<notin> set allowedTypes_local
   \<and> f_mimetype demo_text \<notin> set allowedTypes_cloud
   \<and> f_mimetype demo_file \<in> set allowedTypes_local
   \<and> f_mimetype demo_file \<in> set allowedTypes_cloud
   \<and> upload_local demo_gallery admin_session (Some demo_text) (Str ''1'') 5 6 False
       = (demo_gallery, \<lparr>status = 400, body = ErrorBody ''Only image files allowed''\<rparr>, [])
   \<and> upload_cloud demo_gallery admin_session (Some demo_text) (Str ''1'') 6
         (Some \<lparr>secure_url = ''https://res/x.png'', public_id = ''x''\<rparr>)
       = (demo_gallery, \<lparr>status = 400, body = ErrorBody ''Only image files allowed''\<rparr>, [])
   \<and> upload_local demo_gallery admin_session (Some demo_file) (Str ''1'') 5 6 True
       = (demo_gallery, \<lparr>status = 500, body = ErrorBody ''Failed to upload image''\<rparr>,
          [Mv ''5-my-cat.png''])
   \<and> upload_cloud demo_gallery admin_session (Some demo_file) (Str ''1'') 6 None
       = (demo_gallery,
          \<lparr>status = 500, body = ErrorBody ''Failed to upload image to Cloudinary''\<rparr>,
          [UploadStream ''PNG''])
   \<and> images (fst (upload_local demo_gallery admin_session (Some demo_file) (Str ''1'') 5 6 False))
       \<noteq> images demo_gallery"
proof -
  note a = upload_all_or_nothing [OF isAdmin_admin_session, where s = demo_gallery
      and upl = demo_text and categoryId = "Str ''1''" and now = 5 and uploadedAt = 6
      and err = False
      and result = "Some \<lparr>secure_url = ''https://res/x.png'', public_id = ''x''\<rparr>"]
  note b = upload_all_or_nothing [OF isAdmin_admin_session, where s = demo_gallery
      and upl = demo_file and categoryId = "Str ''1''" and now = 5 and uploadedAt = 6]
  have 1: "upload_local demo_gallery admin_session (Some demo_text) (Str ''1'') 5 6 False
       = (demo_gallery, error_response 400 ''Only image files allowed'', [])"
    using a demo_mimetypes by blast
  have 2: "upload_cloud demo_gallery admin_session (Some demo_text) (Str ''1'') 6
         (Some \<lparr>secure_url = ''https://res/x.png'', public_id = ''x''\<rparr>)
       = (demo_gallery, error_response 400 ''Only image files allowed'', [])"
    using a demo_mimetypes by blast
  have 3: "upload_local demo_gallery admin_session (Some demo_file) (Str ''1'') 5 6 True
       = (demo_gallery, error_response 500 ''Failed to upload image'',
          [Mv (decimal 5 @ ''-'' @ replace_ws (f_name demo_file))])"
    using b demo_mimetypes by blast
  have 4: "upload_cloud demo_gallery admin_session (Some demo_file) (Str ''1'') 6 None
       = (demo_gallery, error_response 500 ''Failed to upload image to Cloudinary'',
          [UploadStream (f_data demo_file)])"
    using b demo_mimetypes by blast
  have 5: "images (fst (upload_local demo_gallery admin_session (Some demo_file) (Str ''1'') 5 6
        False)) \<noteq> images demo_gallery"
    using b demo_mimetypes by blast
  from 1 2 3 4 5 show ?thesis
    by (simp add: isAdmin_admin_session demo_mimetypes demo_file_fields decimal_5
        error_response_def)
qed

text \<open>
  C10, as the code has it. When the \<open>categoryId\<close> field is absent, or is a string that
  does not begin (after leading white space and an optional sign) with a decimal digit,
  \<open>parseInt\<close> gives \<open>NaN\<close>; an administrator's upload of an allowed file whose storage
  succeeds then answers 200 and appends an image whose \<open>categoryId\<close> is \<open>NaN\<close>. An
  image with \<open>categoryId = NaN\<close> is in every unfiltered listing of a store that holds it
  and in no listing filtered by a non-empty parameter.
\<close>

theorem upload_unparsed_category:
  assumes "isAdmin sess"
    and "categoryId = Undefined \<or> (\<exists>str. categoryId = Str str \<and> \<not> begins_with_digit str)"
  shows "parseInt categoryId = NaN
       \<and> (f_mimetype upl \<in> set allowedTypes_local \<longrightarrow>
            (\<exists>img. upload_local s sess (Some upl) categoryId now uploadedAt False
                     = (s\<lparr>images := images s @ [img]\<rparr>, json (ImageBody img),
                        [Mv (i_fileName img)])
                  \<and> i_categoryId img = NaN))
       \<and> (f_mimetype upl \<in> set allowedTypes_cloud \<longrightarrow>
            (\<exists>img. upload_cloud s sess (Some upl) categoryId uploadedAt (Some res)
                     = (s\<lparr>images := images s @ [img]\<rparr>, json (ImageBody img),
                        [UploadStream (f_data upl)])
                  \<and> i_categoryId img = NaN))
       \<and> (\<forall>t img. img \<in> set (images t) \<longrightarrow> i_categoryId img = NaN \<longrightarrow>
              img \<in> set (listed (list_images t Undefined))
              \<and> img \<in> set (listed (list_images t (Str [])))
              \<and> (\<forall>q. q \<noteq> [] \<longrightarrow> img \<notin> set (listed (list_images t (Str q)))))"
proof -
  from assms(2) have nan: "parseInt categoryId = NaN"
    using not_begins_parse parse_Undefined by auto
  have L: "f_mimetype upl \<in> set allowedTypes_local \<longrightarrow>
            (\<exists>img. upload_local s sess (Some upl) categoryId now uploadedAt False
                     = (s\<lparr>images := images s @ [img]\<rparr>, json (ImageBody img),
                        [Mv (i_fileName img)])
                  \<and> i_categoryId img = NaN)"
    using assms(1) nan by (simp add: upload_local_def Let_def json_def)
  have C: "f_mimetype upl \<in> set allowedTypes_cloud \<longrightarrow>
            (\<exists>img. upload_cloud s sess (Some upl) categoryId uploadedAt (Some res)
                     = (s\<lparr>images := images s @ [img]\<rparr>, json (ImageBody img),
                        [UploadStream (f_data upl)])
                  \<and> i_categoryId img = NaN)"
    using assms(1) nan by (simp add: upload_cloud_def Let_def json_def)
  have F: "\<forall>t img. img \<in> set (images t) \<longrightarrow> i_categoryId img = NaN \<longrightarrow>
              img \<in> set (listed (list_images t Undefined))
              \<and> img \<in> set (listed (list_images t (Str [])))
              \<and> (\<forall>q. q \<noteq> [] \<longrightarrow> img \<notin> set (listed (list_images t (Str q))))"
    by (simp add: list_images_def listed_def json_def strict_eq_def)
  show ?thesis
    by (rule conjI [OF nan conjI [OF L conjI [OF C F]]])
qed

theorem upload_unparsed_category_witness:
  "isAdmin admin_session \<and> \<not> begins_with_digit ''abc''
   \<and> f_mimetype demo_file \<in> set allowedTypes_local
   \<and> parseInt (Str ''abc'') = NaN \<and> parseInt Undefined = NaN
   \<and> upload_local empty_state admin_session (Some demo_file) (Str ''abc'') 5 6 False
       = (\<lparr>users = [], categories = [], images = [demo_image 1 NaN]\<rparr>,
          \<lparr>status = 200, body = ImageBody (demo_image 1 NaN)\<rparr>, [Mv ''5-my-cat.png''])
   \<and> demo_image 2 NaN \<in> set (images demo_gallery)
   \<and> i_categoryId (demo_image 2 NaN) = NaN
   \<and> demo_image 2 NaN \<in> set (listed (list_images demo_gallery Undefined))
   \<and> demo_image 2 NaN \<notin> set (listed (list_images demo_gallery (Str ''2'')))"
proof -
  have h: "Str ''abc'' = Undefined \<or> (\<exists>str. Str ''abc'' = Str str \<and> \<not> begins_with_digit str)"
    using abc_no_digit by simp
  have h': "Undefined = Undefined \<or> (\<exists>str. Undefined = Str str \<and> \<not> begins_with_digit str)"
    by simp
  note t = upload_unparsed_category [OF isAdmin_admin_session h]
  note t' = upload_unparsed_category [OF isAdmin_admin_session h']
  have nan: "parseInt (Str ''abc'') = NaN" "parseInt Undefined = NaN"
    using t t' by blast+
  have m: "demo_image 2 NaN \<in> set (images demo_gallery)" "i_categoryId (demo_image 2 NaN) = NaN"
    by (simp_all add: demo_gallery_images demo_image_def)
  have two: "''2'' \<noteq> []" by simp
  from t m two have l: "demo_image 2 NaN \<in> set (listed (list_images demo_gallery Undefined))"
    "demo_image 2 NaN \<notin> set (listed (list_images demo_gallery (Str ''2'')))"
    by blast+
  have up: "upload_local empty_state admin_session (Some demo_file) (Str ''abc'') 5 6 False
       = (\<lparr>users = [], categories = [], images = [demo_image 1 NaN]\<rparr>,
          \<lparr>status = 200, body = ImageBody (demo_image 1 NaN)\<rparr>, [Mv ''5-my-cat.png''])"
    by (simp add: upload_local_def isAdmin_admin_session demo_mimetypes Let_def nan
        empty_state_def demo_image_def json_def admin_session_username demo_file_fields
        decimal_5)
  from nan m l up abc_no_digit show ?thesis
    by (simp add: isAdmin_admin_session demo_mimetypes)
qed

text \<open>
  C10, as stated, fails for a string that is not a number but begins with digits:
  \<open>parseInt('12abc')\<close> is 12, so the image gets category 12 and the listing filtered
  on 12 returns it.
\<close>

theorem upload_digit_prefix_counterexample:
  "upload_local empty_state admin_session (Some demo_file) (Str ''12abc'') 5 6 False
     = (\<lparr>users = [], categories = [], images = [demo_image 1 (Num 12)]\<rparr>,
        \<lparr>status = 200, body = ImageBody (demo_image 1 (Num 12))\<rparr>, [Mv ''5-my-cat.png''])
   \<and> i_categoryId (demo_image 1 (Num 12)) = Num 12
   \<and> list_images \<lparr>users = [], categories = [], images = [demo_image 1 (Num 12)]\<rparr> (Str ''12'')
       = \<lparr>status = 200, body = ImagesBody [demo_image 1 (Num 12)]\<rparr>"
  by (simp add: upload_local_def list_images_def isAdmin_admin_session demo_mimetypes Let_def
      parse_12abc parse_12 empty_state_def demo_image_def json_def admin_session_username
      demo_file_fields decimal_5 strict_eq_def)

end
